theory Spec2Isabelle
  imports Main "HOL-Library.AList"
begin

section \<open>Errors and status codes\<close>

text \<open>
  The gRPC codes the node server uses (\<open>codes.*\<close>); \<open>OK\<close> is the code of a nil
  error and \<open>Unknown\<close> the code gRPC gives an error that carries no status.
\<close>

datatype code = OK | InvalidArgument | Aborted | Internal | NotFound | Unimplemented | Unknown

text \<open>
  Go errors as values. \<open>ErrNotExist\<close> and \<open>ErrExist\<close> are the operating-system
  errors that \<open>os.IsNotExist\<close> and \<open>os.IsExist\<close> recognise, \<open>Err\<close> is any other
  error of a primitive. \<open>Status c f args\<close> is \<open>status.Error(c, fmt.Sprintf(f, args))\<close>
  (and \<open>status.Errorf(c, f, args)\<close>), \<open>Errorf f args\<close> is \<open>fmt.Errorf(f, args)\<close>: the
  message is kept as its format string and its arguments, the rendering of
  \<open>%q\<close> and \<open>%v\<close> is not modelled.
\<close>

datatype error =
    ErrNotExist string
  | ErrExist string
  | Err string
  | ErrWaitTimeout
  | Status code string "arg list"
  | Errorf string "arg list"
and arg =
    AStr string
  | AInt int
  | AStrs "string list"
  | AMap "(string \<times> string) list"
  | AErr error

fun IsNotExist :: "error option \<Rightarrow> bool" where
  "IsNotExist (Some (ErrNotExist _)) = True"
| "IsNotExist _ = False"

fun IsExist :: "error option \<Rightarrow> bool" where
  "IsExist (Some (ErrExist _)) = True"
| "IsExist _ = False"

fun Code :: "error option \<Rightarrow> code" where
  "Code None = OK"
| "Code (Some (Status c _ _)) = c"
| "Code (Some _) = Unknown"

section \<open>The Go library functions the node server calls\<close>

subsection \<open>Package strings\<close>

text \<open>
  A Go string is a sequence of bytes, here a \<open>char list\<close>. \<open>ToLower\<close> and
  \<open>TrimSpace\<close> are modelled on ASCII: bytes above 127 are left as they are.
\<close>

definition HasPrefix :: "string \<Rightarrow> string \<Rightarrow> bool" where
  "HasPrefix s prefix = (take (length prefix) s = prefix)"

definition TrimPrefix :: "string \<Rightarrow> string \<Rightarrow> string" where
  "TrimPrefix s prefix = (if HasPrefix s prefix then drop (length prefix) s else s)"

definition TrimRight :: "string \<Rightarrow> string \<Rightarrow> string" where
  "TrimRight s cutset = rev (dropWhile (\<lambda>c. c \<in> set cutset) (rev s))"

definition lower :: "char \<Rightarrow> char" where
  "lower c =
     (case map_of (zip ''ABCDEFGHIJKLMNOPQRSTUVWXYZ'' ''abcdefghijklmnopqrstuvwxyz'') c of
        Some l \<Rightarrow> l
      | None \<Rightarrow> c)"

definition ToLower :: "string \<Rightarrow> string" where
  "ToLower s = map lower s"

definition isSpace :: "char \<Rightarrow> bool" where
  "isSpace c = (c \<in> set [CHR 0x09, CHR 0x0A, CHR 0x0B, CHR 0x0C, CHR 0x0D, CHR 0x20])"

definition TrimSpace :: "string \<Rightarrow> string" where
  "TrimSpace s = rev (dropWhile isSpace (rev (dropWhile isSpace s)))"

fun Contains :: "string \<Rightarrow> string \<Rightarrow> bool" where
  "Contains [] substr = (substr = [])"
| "Contains (c # cs) substr = (HasPrefix (c # cs) substr \<or> Contains cs substr)"

text \<open>
  \<open>strings.ReplaceAll\<close>: the occurrences of \<open>old\<close> are replaced from left to right
  and do not overlap. For an empty \<open>old\<close> Go inserts \<open>new\<close> before every character and
  at the end (counted in bytes here); no call of the node server passes an empty
  \<open>old\<close>.
\<close>

fun ReplaceAll :: "string \<Rightarrow> string \<Rightarrow> string \<Rightarrow> string" where
  "ReplaceAll [] old new = (if old = [] then new else [])"
| "ReplaceAll (c # cs) old new =
     (if old = [] then new @ c # ReplaceAll cs old new
      else if HasPrefix (c # cs) old then new @ ReplaceAll (drop (length old - 1) cs) old new
      else c # ReplaceAll cs old new)"

subsection \<open>Package strconv and the verb \<open>%d\<close>\<close>

definition digit :: "nat \<Rightarrow> char" where
  "digit n = ''0123456789'' ! (n mod 10)"

fun utoa :: "nat \<Rightarrow> string" where
  "utoa n = (if n < 10 then [digit n] else utoa (n div 10) @ [digit (n mod 10)])"

declare utoa.simps [simp del]

text \<open>\<open>fmt.Sprintf("%d", i)\<close>\<close>

definition Itoa :: "int \<Rightarrow> string" where
  "Itoa i = (if i < 0 then CHR ''-'' # utoa (nat (- i)) else utoa (nat i))"

text \<open>The position of a character in a table, counted from \<open>i\<close>.\<close>

fun indexFrom :: "int \<Rightarrow> char \<Rightarrow> string \<Rightarrow> int option" where
  "indexFrom i c [] = None"
| "indexFrom i c (x # xs) = (if c = x then Some i else indexFrom (i + 1) c xs)"

definition digitVal :: "char \<Rightarrow> int option" where
  "digitVal c = indexFrom 0 c ''0123456789''"

fun parseDigits :: "int \<Rightarrow> string \<Rightarrow> int option" where
  "parseDigits n [] = Some n"
| "parseDigits n (c # cs) =
     (case digitVal c of None \<Rightarrow> None | Some d \<Rightarrow> parseDigits (n * 10 + d) cs)"

text \<open>
  \<open>strconv.Atoi\<close> on a 64-bit platform: an optional sign and decimal digits; a
  syntax error gives 0, a value outside \<open>int\<close> gives the nearest bound, each with an
  error.
\<close>

definition Atoi :: "string \<Rightarrow> int \<times> error option" where
  "Atoi s =
     (let neg = (s \<noteq> [] \<and> hd s = CHR ''-'');
          body = (if s \<noteq> [] \<and> (hd s = CHR ''-'' \<or> hd s = CHR ''+'') then tl s else s)
      in if body = [] then (0, Some (Err ''invalid syntax''))
         else (case parseDigits 0 body of
                 None \<Rightarrow> (0, Some (Err ''invalid syntax''))
               | Some n \<Rightarrow>
                   if \<not> neg \<and> n > 9223372036854775807
                     then (9223372036854775807, Some (Err ''value out of range''))
                   else if neg \<and> n > 9223372036854775808
                     then (- 9223372036854775808, Some (Err ''value out of range''))
                   else (if neg then - n else n, None)))"

subsection \<open>Package encoding/base64\<close>

definition encodeStd :: string where
  "encodeStd = ''ABCDEFGHIJKLMNOPQRSTUVWXYZabcdefghijklmnopqrstuvwxyz0123456789+/''"

text \<open>\<open>enc.encode[v & 0x3F]\<close>\<close>

definition sextet :: "nat \<Rightarrow> char" where
  "sextet v = encodeStd ! (v mod 64)"

text \<open>
  \<open>base64.StdEncoding.EncodeToString\<close>: three bytes give the 24-bit value
  \<open>a << 16 | b << 8 | c\<close>, written as four characters (\<open>val >> 18\<close>, \<open>val >> 12\<close>,
  \<open>val >> 6\<close>, \<open>val\<close>, each masked with \<open>0x3F\<close>); a rest of one or two bytes is
  padded with \<open>=\<close>.
\<close>

fun EncodeToString :: "string \<Rightarrow> string" where
  "EncodeToString (a # b # c # src) =
     (let val = of_char a * 65536 + of_char b * 256 + (of_char c :: nat)
      in sextet (val div 262144) # sextet (val div 4096) # sextet (val div 64) # sextet val
           # EncodeToString src)"
| "EncodeToString [a, b] =
     (let val = of_char a * 65536 + of_char b * (256 :: nat)
      in [sextet (val div 262144), sextet (val div 4096), sextet (val div 64), CHR ''=''])"
| "EncodeToString [a] =
     (let val = of_char a * (65536 :: nat)
      in [sextet (val div 262144), sextet (val div 4096), CHR ''='', CHR ''=''])"
| "EncodeToString [] = []"

text \<open>The conversion \<open>byte(v)\<close> keeps the low eight bits.\<close>

definition byte :: "nat \<Rightarrow> char" where
  "byte v =
     Char (odd v) (odd (v div 2)) (odd (v div 4)) (odd (v div 8)) (odd (v div 16))
       (odd (v div 32)) (odd (v div 64)) (odd (v div 128))"

definition decodeMap :: "char \<Rightarrow> nat option" where
  "decodeMap c = map_option nat (indexFrom 0 c encodeStd)"

text \<open>
  \<open>base64.StdEncoding.DecodeString\<close>: line breaks are skipped, every group has four
  characters, and only the last group may be padded. The bytes decoded before an
  error are not kept, the caller does not read them.
\<close>

fun decodeQuanta :: "string \<Rightarrow> error + string" where
  "decodeQuanta [] = Inr []"
| "decodeQuanta (c1 # c2 # c3 # c4 # rest) =
     (case (decodeMap c1, decodeMap c2) of
        (Some v1, Some v2) \<Rightarrow>
          (if c3 = CHR ''='' \<and> c4 = CHR ''='' \<and> rest = []
             then Inr [byte ((v1 * 64 + v2) div 16)]
           else (case decodeMap c3 of
                   None \<Rightarrow> Inl (Err ''illegal base64 data'')
                 | Some v3 \<Rightarrow>
                     (if c4 = CHR ''='' \<and> rest = []
                        then (let val = (v1 * 64 + v2) * 64 + v3
                              in Inr [byte (val div 1024), byte (val div 4)])
                      else (case decodeMap c4 of
                              None \<Rightarrow> Inl (Err ''illegal base64 data'')
                            | Some v4 \<Rightarrow>
                                (let val = ((v1 * 64 + v2) * 64 + v3) * 64 + v4
                                 in (case decodeQuanta rest of
                                       Inl err \<Rightarrow> Inl err
                                     | Inr out \<Rightarrow>
                                         Inr (byte (val div 65536) # byte (val div 256)
                                                # byte val # out)))))))
      | _ \<Rightarrow> Inl (Err ''illegal base64 data''))"
| "decodeQuanta _ = Inl (Err ''illegal base64 data'')"

definition DecodeString :: "string \<Rightarrow> error + string" where
  "DecodeString s = decodeQuanta (filter (\<lambda>c. c \<noteq> CHR 0x0D \<and> c \<noteq> CHR 0x0A) s)"

text \<open>The 24-bit value of a group of three bytes.\<close>

definition val3 :: "char \<Rightarrow> char \<Rightarrow> char \<Rightarrow> nat" where
  "val3 a b c = of_char a * 65536 + of_char b * 256 + of_char c"

subsection \<open>Protocol strings\<close>

text \<open>
  The strings of a request are valid UTF-8: the protocol layer refuses a message with
  any other. A valid UTF-8 string does not begin with a continuation byte (\<open>0x80\<close>
  to \<open>0xBF\<close>).
\<close>

definition continuationByte :: "char \<Rightarrow> bool" where
  "continuationByte c = (128 \<le> (of_char c :: nat) \<and> (of_char c :: nat) < 192)"

definition utf8Start :: "string \<Rightarrow> bool" where
  "utf8Start s = (case s of [] \<Rightarrow> True | c # _ \<Rightarrow> \<not> continuationByte c)"

section \<open>Requests\<close>

text \<open>
  The request messages, with the fields the node server reads. A publish request
  carries every field of a stage request and the target path and the read-only flag.
  The getters of a nil message give the zero value.
\<close>

record MountVolume =
  MountFlags :: "string list"
  VolumeMountGroup :: string

record Capability =
  GetMount :: "MountVolume option"

definition GetMountFlags :: "MountVolume option \<Rightarrow> string list" where
  "GetMountFlags m = (case m of None \<Rightarrow> [] | Some mv \<Rightarrow> MountFlags mv)"

definition GetVolumeMountGroup :: "MountVolume option \<Rightarrow> string" where
  "GetVolumeMountGroup m = (case m of None \<Rightarrow> [] | Some mv \<Rightarrow> VolumeMountGroup mv)"

record NodeStageVolumeRequest =
  VolumeId :: string
  VolumeCapability :: "Capability option"
  StagingTargetPath :: string
  VolumeContext :: "(string \<times> string) list"
  Secrets :: "(string \<times> string) list"

record NodePublishVolumeRequest = NodeStageVolumeRequest +
  TargetPath :: string
  Readonly :: bool

record NodeUnstageVolumeRequest =
  unstage_VolumeId :: string
  unstage_StagingTargetPath :: string

record NodeUnpublishVolumeRequest =
  unpublish_VolumeId :: string
  unpublish_TargetPath :: string

section \<open>The environment of the node server\<close>

text \<open>
  The constants of package \<open>smb\<close> that \<open>nodeserver.go\<close> reads; they are declared in
  another file of the package and are parameters here.
\<close>

record smb_constants =
  sourceField :: string
  subDirField :: string
  pvcNamespaceKey :: string
  pvcNameKey :: string
  pvNameKey :: string
  pvcNamespaceMetadata :: string
  pvcNameMetadata :: string
  pvNameMetadata :: string
  usernameField :: string
  passwordField :: string
  domainField :: string
  defaultDomainName :: string
  krb5Prefix :: string
  krb5CacheDirectory :: string
  volumeOperationAlreadyExistsFmt :: string

text \<open>
  Everything the node server calls and does not define, over a state \<open>'w\<close> of the
  node (file system, mount table, lock table): the platform, the methods of
  \<open>d.mounter\<close> and \<open>d.volumeLocks\<close>, the functions of the packages \<open>os\<close> and
  \<open>path/filepath\<close>, and the helpers of package \<open>smb\<close> that live in other files
  (\<open>hasGuestMountOptions\<close>, \<open>replaceWithMap\<close>, \<open>IsCorruptedDir\<close>, \<open>prepareStagePath\<close>,
  \<open>preparePublishPath\<close>, \<open>Mount\<close>, \<open>CleanupMountPoint\<close>, \<open>CleanupSMBMountPoint\<close>).
  A call that can fail returns its error beside its result; a call that changes the
  node returns the new state. A map is given as the list of its entries in the order
  the \<open>range\<close> loop visits them.
\<close>

record 'w env =
  goos_windows :: bool
  smb :: smb_constants
  mounter_IsLikelyNotMountPoint :: "string \<Rightarrow> 'w \<Rightarrow> bool \<times> error option"
  mounter_List :: "'w \<Rightarrow> string list \<times> error option"
  mounter_Mount :: "string \<Rightarrow> string \<Rightarrow> string \<Rightarrow> string list \<Rightarrow> 'w \<Rightarrow> error option \<times> 'w"
  mounter_Unmount :: "string \<Rightarrow> 'w \<Rightarrow> error option \<times> 'w"
  volumeLocks_TryAcquire :: "string \<Rightarrow> 'w \<Rightarrow> bool \<times> 'w"
  volumeLocks_Release :: "string \<Rightarrow> 'w \<Rightarrow> 'w"
  os_ReadDir :: "string \<Rightarrow> 'w \<Rightarrow> string list \<times> error option"
  os_MkdirAll :: "string \<Rightarrow> nat \<Rightarrow> 'w \<Rightarrow> error option \<times> 'w"
  os_Remove :: "string \<Rightarrow> 'w \<Rightarrow> error option \<times> 'w"
  os_Stat :: "string \<Rightarrow> 'w \<Rightarrow> error option"
  os_Lstat :: "string \<Rightarrow> 'w \<Rightarrow> error option"
  os_Readlink :: "string \<Rightarrow> 'w \<Rightarrow> string \<times> error option"
  os_WriteFile :: "string \<Rightarrow> string \<Rightarrow> nat \<Rightarrow> 'w \<Rightarrow> error option \<times> 'w"
  os_Chown :: "string \<Rightarrow> int \<Rightarrow> int \<Rightarrow> 'w \<Rightarrow> error option \<times> 'w"
  os_Symlink :: "string \<Rightarrow> string \<Rightarrow> 'w \<Rightarrow> error option \<times> 'w"
  filepath_Abs :: "string \<Rightarrow> 'w \<Rightarrow> string \<times> error option"
  hasGuestMountOptions :: "string list \<Rightarrow> bool"
  replaceWithMap :: "string \<Rightarrow> (string \<times> string) list \<Rightarrow> string"
  IsCorruptedDir :: "string \<Rightarrow> 'w \<Rightarrow> bool"
  prepareStagePath :: "string \<Rightarrow> 'w \<Rightarrow> error option \<times> 'w"
  preparePublishPath :: "string \<Rightarrow> 'w \<Rightarrow> error option \<times> 'w"
  Mount :: "string \<Rightarrow> string \<Rightarrow> string \<Rightarrow> string list \<Rightarrow> string list \<Rightarrow> 'w \<Rightarrow> error option \<times> 'w"
  CleanupMountPoint :: "string \<Rightarrow> bool \<Rightarrow> 'w \<Rightarrow> error option \<times> 'w"
  CleanupSMBMountPoint :: "string \<Rightarrow> bool \<Rightarrow> 'w \<Rightarrow> error option \<times> 'w"

text \<open>
  The calls that change the node, in the order they were made: the model keeps this
  list beside the state of the node.
\<close>

datatype call =
    Mounter_Mount string string string "string list"
  | Mounter_Unmount string
  | SMB_Mount string string string "string list" "string list"
  | Os_MkdirAll string nat
  | Os_Remove string
  | Os_WriteFile string string nat
  | Os_Chown string int int
  | Os_Symlink string string
  | PrepareStagePath string
  | PreparePublishPath string
  | Cleanup_MountPoint string
  | Cleanup_SMBMountPoint string

type_synonym 'w state = "'w \<times> call list"

definition effect :: "call \<Rightarrow> ('w \<Rightarrow> 'a \<times> 'w) \<Rightarrow> 'w state \<Rightarrow> 'a \<times> 'w state" where
  "effect c f s = (case f (fst s) of (r, w') \<Rightarrow> (r, (w', snd s @ [c])))"

text \<open>The calls of the mount primitive in a list of calls: the bind mount of publish and the share mount of stage.\<close>

fun isMountCall :: "call \<Rightarrow> bool" where
  "isMountCall (Mounter_Mount _ _ _ _) = True"
| "isMountCall (SMB_Mount _ _ _ _ _) = True"
| "isMountCall _ = False"

definition mountCalls :: "'w state \<Rightarrow> call list" where
  "mountCalls s = filter isMountCall (snd s)"

subsection \<open>Package k8s.io/apimachinery/pkg/util/wait\<close>

text \<open>Durations are counted in nanoseconds, as \<open>time.Duration\<close> does.\<close>

definition Second :: nat where
  "Second = 1000000000"

definition Minute :: nat where
  "Minute = 60 * Second"

text \<open>
  \<open>wait.PollImmediate(interval, timeout, condition)\<close> runs the condition at once and
  then once per interval, until it reports done or an error or the timeout is over,
  when it returns \<open>ErrWaitTimeout\<close>. The condition runs in the caller's goroutine, so
  an attempt that was started is one that has completed. The model gives the
  condition one attempt at once and one per interval that fits into the timeout.
\<close>

fun pollAttempts :: "nat \<Rightarrow> ('s \<Rightarrow> (bool \<times> error option) \<times> 's) \<Rightarrow> 's \<Rightarrow> error option \<times> 's" where
  "pollAttempts 0 condition s = (Some ErrWaitTimeout, s)"
| "pollAttempts (Suc n) condition s =
     (case condition s of
        ((done, Some err), s') \<Rightarrow> (Some err, s')
      | ((done, None), s') \<Rightarrow> if done then (None, s') else pollAttempts n condition s')"

definition PollImmediate ::
  "nat \<Rightarrow> nat \<Rightarrow> ('s \<Rightarrow> (bool \<times> error option) \<times> 's) \<Rightarrow> 's \<Rightarrow> error option \<times> 's" where
  "PollImmediate interval timeout condition s =
     pollAttempts (Suc (timeout div interval)) condition s"

section \<open>Kerberos cache names\<close>

definition checkGidPresentInMountFlags :: "string list \<Rightarrow> bool" where
  "checkGidPresentInMountFlags mountFlags =
     list_ex (\<lambda>mountFlag. HasPrefix mountFlag ''gid'') mountFlags"

definition hasKerberosMountOption :: "string list \<Rightarrow> bool" where
  "hasKerberosMountOption mountFlags =
     list_ex (\<lambda>mountFlag. HasPrefix mountFlag ''sec=krb5'') mountFlags"

fun getCredUID :: "string list \<Rightarrow> int \<times> error option" where
  "getCredUID [] = (- 1, Some (Errorf ''Can't find credUid in mount flags'' []))"
| "getCredUID (mountFlag # mountFlags) =
     (if HasPrefix mountFlag ''cruid='' then Atoi (TrimPrefix mountFlag ''cruid='')
      else getCredUID mountFlags)"

definition getKrb5CcacheName :: "smb_constants \<Rightarrow> int \<Rightarrow> string" where
  "getKrb5CcacheName k credUID = krb5Prefix k @ Itoa credUID"

definition getKerberosFilePath :: "smb_constants \<Rightarrow> string \<Rightarrow> string" where
  "getKerberosFilePath k fileName = krb5CacheDirectory k @ fileName"

definition volumeKerberosCacheName :: "string \<Rightarrow> string" where
  "volumeKerberosCacheName volumeID =
     (let encoded = EncodeToString volumeID
      in ReplaceAll (ReplaceAll encoded ''/'' ''-'') ''+'' ''_'')"

section \<open>The Kerberos credential cache\<close>

definition kerberosCacheDirectoryExists :: "'w env \<Rightarrow> 'w \<Rightarrow> bool \<times> error option" where
  "kerberosCacheDirectoryExists e w =
     (case os_Stat e (krb5CacheDirectory (smb e)) w of
        None \<Rightarrow> (True, None)
      | Some err \<Rightarrow>
          if IsNotExist (Some err)
            then (False, Some (Status Internal
                   ''Directory for kerberos caches must exist, it will not be created: %s: %v''
                   [AStr (krb5CacheDirectory (smb e)), AErr err]))
          else (False, Some err))"

text \<open>The loop over the secrets keeps the value of the last key that matches.\<close>

definition getKerberosCache ::
  "smb_constants \<Rightarrow> int \<Rightarrow> (string \<times> string) list \<Rightarrow> error + (string \<times> string)" where
  "getKerberosCache k credUID secrets =
     (let krb5CcacheName = getKrb5CcacheName k credUID;
          krb5CcacheContent =
            foldl (\<lambda>content (key, v). if ToLower key = krb5CcacheName then v else content) [] secrets
      in if krb5CcacheContent = []
           then Inl (Status InvalidArgument ''Empty kerberos cache in key %s'' [AStr krb5CcacheName])
         else (case DecodeString krb5CcacheContent of
                 Inl err \<Rightarrow>
                   Inl (Status InvalidArgument
                     ''Malformed kerberos cache in key %s, expected to be in base64 form: %v''
                     [AStr krb5CcacheName, AErr err])
               | Inr content \<Rightarrow>
                   Inr (getKerberosFilePath k (getKrb5CcacheName k credUID), content)))"

definition ensureKerberosCache ::
  "'w env \<Rightarrow> string \<Rightarrow> string list \<Rightarrow> (string \<times> string) list \<Rightarrow> 'w state
     \<Rightarrow> (bool \<times> error option) \<times> 'w state" where
  "ensureKerberosCache e volumeID mountFlags secrets s =
     (if hasKerberosMountOption mountFlags then
        (case kerberosCacheDirectoryExists e (fst s) of
           (_, Some err) \<Rightarrow> ((False, Some err), s)
         | (_, None) \<Rightarrow>
        (case getCredUID mountFlags of
           (_, Some err) \<Rightarrow> ((False, Some err), s)
         | (credUID, None) \<Rightarrow>
        (case getKerberosCache (smb e) credUID secrets of
           Inl err \<Rightarrow> ((False, Some err), s)
         | Inr (krb5CacheFileName, content) \<Rightarrow>
        (let volumeIDCacheFileName = volumeKerberosCacheName volumeID;
             volumeIDCacheAbsolutePath = getKerberosFilePath (smb e) volumeIDCacheFileName
         in
        (case effect (Os_WriteFile volumeIDCacheAbsolutePath content 448)
                (os_WriteFile e volumeIDCacheAbsolutePath content 448) s of
           (Some err, s1) \<Rightarrow>
             ((False, Some (Status Internal ''Couldn't write kerberos cache to file %s: %v''
                [AStr volumeIDCacheAbsolutePath, AErr err])), s1)
         | (None, s1) \<Rightarrow>
        (case effect (Os_Chown volumeIDCacheAbsolutePath credUID credUID)
                (os_Chown e volumeIDCacheAbsolutePath credUID credUID) s1 of
           (Some err, s2) \<Rightarrow>
             ((False, Some (Status Internal ''Couldn't chown kerberos cache %s to user %d: %v''
                [AStr volumeIDCacheAbsolutePath, AInt credUID, AErr err])), s2)
         | (None, s2) \<Rightarrow>
        (let s3 = (if IsNotExist (os_Stat e krb5CacheFileName (fst s2)) then s2
                   else snd (effect (Os_Remove krb5CacheFileName) (os_Remove e krb5CacheFileName) s2))
         in
        (case effect (Os_Symlink volumeIDCacheAbsolutePath krb5CacheFileName)
                (os_Symlink e volumeIDCacheAbsolutePath krb5CacheFileName) s3 of
           (Some err, s4) \<Rightarrow>
             ((False, Some (Status Internal
                ''Couldn't create symlink to a cache file %s->%s to user %d: %v''
                [AStr krb5CacheFileName, AStr volumeIDCacheFileName, AInt credUID, AErr err])), s4)
         | (None, s4) \<Rightarrow> ((True, None), s4)))))))))
      else ((False, None), s))"

text \<open>
  The loop of \<open>deleteKerberosCache\<close> over the entries of the cache directory. An entry
  that \<open>os.Lstat\<close> finds is removed when \<open>os.Readlink\<close> gives the volume's cache file as
  its target; an error of the removal is logged and dropped.
\<close>

fun removeSymlinks :: "'w env \<Rightarrow> string \<Rightarrow> string list \<Rightarrow> 'w state \<Rightarrow> 'w state" where
  "removeSymlinks e volumeIDCacheAbsolutePath [] s = s"
| "removeSymlinks e volumeIDCacheAbsolutePath (dirEntry # dirEntries) s =
     (let filePath = getKerberosFilePath (smb e) dirEntry
      in if os_Lstat e filePath (fst s) = None
             \<and> fst (os_Readlink e filePath (fst s)) = volumeIDCacheAbsolutePath
           then removeSymlinks e volumeIDCacheAbsolutePath dirEntries
                  (snd (effect (Os_Remove filePath) (os_Remove e filePath) s))
         else removeSymlinks e volumeIDCacheAbsolutePath dirEntries s)"

definition deleteKerberosCache :: "'w env \<Rightarrow> string \<Rightarrow> 'w state \<Rightarrow> error option \<times> 'w state" where
  "deleteKerberosCache e volumeID s =
     (case kerberosCacheDirectoryExists e (fst s) of (exists, err) \<Rightarrow>
        if \<not> exists then (None, s)
        else if err \<noteq> None then (err, s)
        else
          (let volumeIDCacheFileName = volumeKerberosCacheName volumeID;
               volumeIDCacheAbsolutePath = getKerberosFilePath (smb e) volumeIDCacheFileName;
               err = os_Stat e volumeIDCacheAbsolutePath (fst s)
           in if IsNotExist err then (None, s)
              else if err \<noteq> None then (err, s)
              else
                (let dirEntries = fst (os_ReadDir e (krb5CacheDirectory (smb e)) (fst s));
                     s1 = removeSymlinks e volumeIDCacheAbsolutePath dirEntries s;
                     s2 = snd (effect (Os_Remove volumeIDCacheAbsolutePath)
                                 (os_Remove e volumeIDCacheAbsolutePath) s1)
                 in (None, s2))))"

section \<open>The mount point probe\<close>

definition makeDir :: "'w env \<Rightarrow> string \<Rightarrow> 'w state \<Rightarrow> error option \<times> 'w state" where
  "makeDir e pathname s =
     (case effect (Os_MkdirAll pathname 493) (os_MkdirAll e pathname 493) s of (err, s') \<Rightarrow>
        if err \<noteq> None then (if \<not> IsExist err then (err, s') else (None, s'))
        else (None, s'))"

text \<open>
  \<open>ensureMountPoint\<close>. In the branch of a mounted target, the \<open>err\<close> of the last
  \<open>return !notMnt, err\<close> is the variable that \<open>os.ReadDir\<close> assigned: the \<open>err\<close> of
  \<open>d.mounter.Unmount\<close> is local to its \<open>if\<close> statement.
\<close>

definition ensureMountPoint ::
  "'w env \<Rightarrow> string \<Rightarrow> 'w state \<Rightarrow> (bool \<times> error option) \<times> 'w state" where
  "ensureMountPoint e target s =
     (case mounter_IsLikelyNotMountPoint e target (fst s) of (notMnt0, err) \<Rightarrow>
        if err \<noteq> None \<and> \<not> IsNotExist err \<and> \<not> IsCorruptedDir e target (fst s)
          then ((\<not> notMnt0, err), s)
        else
          (let notMnt1 = (if err \<noteq> None \<and> \<not> IsNotExist err then False else notMnt0)
           in
          (case (if \<not> goos_windows e
                 then (case mounter_List e (fst s) of
                         (mountList, Some err) \<Rightarrow> Inl (\<not> notMnt1, Some err)
                       | (mountList, None) \<Rightarrow>
                           (case filepath_Abs e target (fst s) of
                              (targetAbs, Some err) \<Rightarrow> Inl (\<not> notMnt1, Some err)
                            | (targetAbs, None) \<Rightarrow>
                                Inr (if targetAbs \<in> set mountList then False else notMnt1)))
                 else Inr notMnt1) of
             Inl r \<Rightarrow> (r, s)
           | Inr notMnt \<Rightarrow>
               if \<not> notMnt then
                 (case os_ReadDir e target (fst s) of
                    (_, None) \<Rightarrow> ((\<not> notMnt, None), s)
                  | (_, Some err) \<Rightarrow>
                      (case effect (Mounter_Unmount target) (mounter_Unmount e target) s of
                         (Some unmountErr, s') \<Rightarrow> ((\<not> notMnt, Some unmountErr), s')
                       | (None, s') \<Rightarrow> ((\<not> True, Some err), s')))
               else
                 (case makeDir e target s of
                    (Some err, s') \<Rightarrow> ((\<not> notMnt, Some err), s')
                  | (None, s') \<Rightarrow> ((False, None), s')))))"

section \<open>Publish and unpublish\<close>

definition NodePublishVolume ::
  "'w env \<Rightarrow> NodePublishVolumeRequest \<Rightarrow> 'w state \<Rightarrow> (error + unit) \<times> 'w state" where
  "NodePublishVolume e req s =
     (if VolumeCapability req = None
        then (Inl (Status InvalidArgument ''Volume capability missing in request'' []), s)
      else (let volumeID = VolumeId req in
      if length volumeID = 0
        then (Inl (Status InvalidArgument ''Volume ID missing in request'' []), s)
      else (let target = TargetPath req in
      if length target = 0
        then (Inl (Status InvalidArgument ''Target path not provided'' []), s)
      else (let source = StagingTargetPath req in
      if length source = 0
        then (Inl (Status InvalidArgument ''Staging target not provided'' []), s)
      else (let mountOptions = (if Readonly req then [''bind''] @ [''ro''] else [''bind'']) in
      (case ensureMountPoint e target s of
         ((mnt, Some err), s1) \<Rightarrow>
           (Inl (Status Internal ''Could not mount target %q: %v'' [AStr target, AErr err]), s1)
       | ((mnt, None), s1) \<Rightarrow>
           if mnt then (Inr (), s1)
           else
      (case effect (PreparePublishPath target) (preparePublishPath e target) s1 of
         (Some err, s2) \<Rightarrow>
           (Inl (Errorf ''prepare publish failed for %s with error: %v'' [AStr target, AErr err]), s2)
       | (None, s2) \<Rightarrow>
      (case effect (Mounter_Mount source target [] mountOptions)
              (mounter_Mount e source target [] mountOptions) s2 of
         (Some err, s3) \<Rightarrow>
           (case effect (Os_Remove target) (os_Remove e target) s3 of
              (Some removeErr, s4) \<Rightarrow>
                (Inl (Status Internal ''Could not remove mount target %q: %v''
                   [AStr target, AErr removeErr]), s4)
            | (None, s4) \<Rightarrow>
                (Inl (Status Internal ''Could not mount %q at %q: %v''
                   [AStr source, AStr target, AErr err]), s4))
       | (None, s3) \<Rightarrow> (Inr (), s3)))))))))"

definition NodeUnpublishVolume ::
  "'w env \<Rightarrow> NodeUnpublishVolumeRequest \<Rightarrow> 'w state \<Rightarrow> (error + unit) \<times> 'w state" where
  "NodeUnpublishVolume e req s =
     (let volumeID = unpublish_VolumeId req in
      if length volumeID = 0
        then (Inl (Status InvalidArgument ''Volume ID missing in request'' []), s)
      else (let targetPath = unpublish_TargetPath req in
      if length targetPath = 0
        then (Inl (Status InvalidArgument ''Target path missing in request'' []), s)
      else
      (case effect (Cleanup_MountPoint targetPath) (CleanupMountPoint e targetPath True) s of
         (Some err, s1) \<Rightarrow>
           (Inl (Status Internal ''failed to unmount target %q: %v'' [AStr targetPath, AErr err]), s1)
       | (None, s1) \<Rightarrow> (Inr (), s1))))"

section \<open>Stage and unstage\<close>

text \<open>
  The loop of \<open>NodeStageVolume\<close> over the volume context: \<open>source\<close>, \<open>subDir\<close> and
  \<open>subDirReplaceMap\<close> after it.
\<close>

definition scanContext ::
  "smb_constants \<Rightarrow> (string \<times> string) list \<Rightarrow> string \<times> string \<times> (string \<times> string) list" where
  "scanContext k ctx =
     foldl (\<lambda>(source, subDir, subDirReplaceMap) (key, v).
              if ToLower key = sourceField k then (v, subDir, subDirReplaceMap)
              else if ToLower key = subDirField k then (source, v, subDirReplaceMap)
              else if ToLower key = pvcNamespaceKey k
                then (source, subDir, AList.update (pvcNamespaceMetadata k) v subDirReplaceMap)
              else if ToLower key = pvcNameKey k
                then (source, subDir, AList.update (pvcNameMetadata k) v subDirReplaceMap)
              else if ToLower key = pvNameKey k
                then (source, subDir, AList.update (pvNameMetadata k) v subDirReplaceMap)
              else (source, subDir, subDirReplaceMap))
       ([], [], []) ctx"

text \<open>The loop over the secrets: \<open>username\<close>, \<open>password\<close> and \<open>domain\<close> after it.\<close>

definition scanSecrets ::
  "smb_constants \<Rightarrow> (string \<times> string) list \<Rightarrow> string \<times> string \<times> string" where
  "scanSecrets k secrets =
     foldl (\<lambda>(username, password, domain) (key, v).
              if ToLower key = usernameField k then (TrimSpace v, password, domain)
              else if ToLower key = passwordField k then (username, TrimSpace v, domain)
              else if ToLower key = domainField k then (username, password, TrimSpace v)
              else (username, password, domain))
       ([], [], []) secrets"

text \<open>
  The mount options of \<open>NodeStageVolume\<close> (from the loop over the secrets to the end of
  the branch on the platform): \<open>mountOptions\<close> and \<open>sensitiveMountOptions\<close>, or the
  error of the Kerberos cache or of the staging directory.
\<close>

definition stageOptions ::
  "'w env \<Rightarrow> string \<Rightarrow> string \<Rightarrow> string list \<Rightarrow> string \<Rightarrow> (string \<times> string) list \<Rightarrow> 'w state
     \<Rightarrow> (error + (string list \<times> string list)) \<times> 'w state" where
  "stageOptions e volumeID targetPath mountFlags volumeMountGroup secrets s =
     (let gidPresent = checkGidPresentInMountFlags mountFlags in
      (case scanSecrets (smb e) secrets of (username, password, domain) \<Rightarrow>
      (let requireUsernamePwdOption = \<not> hasGuestMountOptions e mountFlags in
       if goos_windows e then
         (let domain = (if domain = [] then defaultDomainName (smb e) else domain) in
          if requireUsernamePwdOption then
            (let username = (if \<not> Contains username [CHR 0x5C]
                             then domain @ [CHR 0x5C] @ username else username)
             in (Inr ([username], [password]), s))
          else (Inr ([], []), s))
       else
         (case ensureKerberosCache e volumeID mountFlags secrets s of
            ((useKerberosCache, Some err), s1) \<Rightarrow>
              (Inl (Status Internal ''Error writing kerberos cache: %v'' [AErr err]), s1)
          | ((useKerberosCache, None), s1) \<Rightarrow>
         (case effect (Os_MkdirAll targetPath 488) (os_MkdirAll e targetPath 488) s1 of
            (Some err, s2) \<Rightarrow>
              (Inl (Status Internal ''MkdirAll %s failed with error: %v''
                 [AStr targetPath, AErr err]), s2)
          | (None, s2) \<Rightarrow>
         (let sensitiveMountOptions =
                (if requireUsernamePwdOption \<and> \<not> useKerberosCache
                 then [usernameField (smb e) @ ''='' @ username @ '','' @ passwordField (smb e)
                         @ ''='' @ password]
                 else []);
              mountOptions = mountFlags;
              mountOptions = (if \<not> gidPresent \<and> volumeMountGroup \<noteq> []
                              then mountOptions @ [''gid='' @ volumeMountGroup]
                              else mountOptions);
              mountOptions = (if domain \<noteq> []
                              then mountOptions @ [domainField (smb e) @ ''='' @ domain]
                              else mountOptions)
          in (Inr (mountOptions, sensitiveMountOptions), s2)))))))"

text \<open>
  The condition that \<open>NodeStageVolume\<close> hands to \<open>wait.PollImmediate\<close>. It writes the
  variable \<open>mountComplete\<close> of the enclosing function, which the model carries beside
  the state.
\<close>

definition mountCondition ::
  "'w env \<Rightarrow> string \<Rightarrow> string \<Rightarrow> string list \<Rightarrow> string list \<Rightarrow> bool \<times> 'w state
     \<Rightarrow> (bool \<times> error option) \<times> (bool \<times> 'w state)" where
  "mountCondition e source targetPath mountOptions sensitiveMountOptions ms =
     (case effect (SMB_Mount source targetPath ''cifs'' mountOptions sensitiveMountOptions)
             (Mount e source targetPath ''cifs'' mountOptions sensitiveMountOptions) (snd ms) of
        (err, s') \<Rightarrow> ((True, err), (True, s')))"

text \<open>The source that \<open>NodeStageVolume\<close> mounts: the sub-directory, when there is one, is appended.\<close>

definition mountSource :: "'w env \<Rightarrow> string \<Rightarrow> string \<Rightarrow> (string \<times> string) list \<Rightarrow> string" where
  "mountSource e source subDir subDirReplaceMap =
     (if subDir \<noteq> []
      then (let subDir = replaceWithMap e subDir subDirReplaceMap;
                source = TrimRight source ''/''
            in source @ ''/'' @ subDir)
      else source)"

text \<open>What \<open>NodeStageVolume\<close> returns after the poll.\<close>

definition mountOutcome ::
  "string \<Rightarrow> string \<Rightarrow> string \<Rightarrow> bool \<Rightarrow> error option \<Rightarrow> error + unit" where
  "mountOutcome volumeID source targetPath mountComplete err =
     (if \<not> mountComplete
        then Inl (Status Internal ''volume(%s) mount %q on %q failed with timeout(10m)''
                    [AStr volumeID, AStr source, AStr targetPath])
      else (case err of
              Some err \<Rightarrow>
                Inl (Status Internal ''volume(%s) mount %q on %q failed with %v''
                       [AStr volumeID, AStr source, AStr targetPath, AErr err])
            | None \<Rightarrow> Inr ()))"

text \<open>\<open>NodeStageVolume\<close> from the probe of the staging path to its end.\<close>

definition stageMount ::
  "'w env \<Rightarrow> string \<Rightarrow> string \<Rightarrow> string \<Rightarrow> string \<Rightarrow> (string \<times> string) list
     \<Rightarrow> string list \<Rightarrow> string list \<Rightarrow> 'w state \<Rightarrow> (error + unit) \<times> 'w state" where
  "stageMount e volumeID targetPath source subDir subDirReplaceMap mountOptions
       sensitiveMountOptions s =
     (case ensureMountPoint e targetPath s of
        ((isDirMounted, Some err), s1) \<Rightarrow>
          (Inl (Status Internal ''Could not mount target %s: %v'' [AStr targetPath, AErr err]), s1)
      | ((isDirMounted, None), s1) \<Rightarrow>
          if isDirMounted then (Inr (), s1)
          else
     (case effect (PrepareStagePath targetPath) (prepareStagePath e targetPath) s1 of
        (Some err, s2) \<Rightarrow>
          (Inl (Errorf ''prepare stage path failed for %s with error: %v''
             [AStr targetPath, AErr err]), s2)
      | (None, s2) \<Rightarrow>
     (let source = mountSource e source subDir subDirReplaceMap in
     (case PollImmediate (1 * Second) (2 * Minute)
             (mountCondition e source targetPath mountOptions sensitiveMountOptions) (False, s2) of
        (err, (mountComplete, s3)) \<Rightarrow>
          (mountOutcome volumeID source targetPath mountComplete err, s3)))))"

definition NodeStageVolume ::
  "'w env \<Rightarrow> NodeStageVolumeRequest \<Rightarrow> 'w state \<Rightarrow> (error + unit) \<times> 'w state" where
  "NodeStageVolume e req s =
     (let volumeID = VolumeId req in
      if length volumeID = 0
        then (Inl (Status InvalidArgument ''Volume ID missing in request'' []), s)
      else
      (case VolumeCapability req of
         None \<Rightarrow> (Inl (Status InvalidArgument ''Volume capability not provided'' []), s)
       | Some volumeCapability \<Rightarrow>
      (let targetPath = StagingTargetPath req in
      if length targetPath = 0
        then (Inl (Status InvalidArgument ''Staging target not provided'' []), s)
      else
      (let ctx = VolumeContext req;
           mountFlags = GetMountFlags (GetMount volumeCapability);
           volumeMountGroup = GetVolumeMountGroup (GetMount volumeCapability);
           secrets = Secrets req
       in
      (case scanContext (smb e) ctx of (source, subDir, subDirReplaceMap) \<Rightarrow>
      if source = []
        then (Inl (Status InvalidArgument ''%s field is missing, current context: %v''
                [AStr (sourceField (smb e)), AMap ctx]), s)
      else
      (case volumeLocks_TryAcquire e volumeID (fst s) of (acquired, w1) \<Rightarrow>
      if \<not> acquired
        then (Inl (Status Aborted (volumeOperationAlreadyExistsFmt (smb e)) [AStr volumeID]),
              (w1, snd s))
      else
      (case (case stageOptions e volumeID targetPath mountFlags volumeMountGroup secrets
                    (w1, snd s) of
               (Inl err, s1) \<Rightarrow> (Inl err, s1)
             | (Inr (mountOptions, sensitiveMountOptions), s1) \<Rightarrow>
                 stageMount e volumeID targetPath source subDir subDirReplaceMap mountOptions
                   sensitiveMountOptions s1) of
         (r, s2) \<Rightarrow> (r, (volumeLocks_Release e volumeID (fst s2), snd s2)))))))))"

definition NodeUnstageVolume ::
  "'w env \<Rightarrow> NodeUnstageVolumeRequest \<Rightarrow> 'w state \<Rightarrow> (error + unit) \<times> 'w state" where
  "NodeUnstageVolume e req s =
     (let volumeID = unstage_VolumeId req in
      if length volumeID = 0
        then (Inl (Status InvalidArgument ''Volume ID missing in request'' []), s)
      else (let stagingTargetPath = unstage_StagingTargetPath req in
      if length stagingTargetPath = 0
        then (Inl (Status InvalidArgument ''Staging target not provided'' []), s)
      else
      (case volumeLocks_TryAcquire e volumeID (fst s) of (acquired, w1) \<Rightarrow>
      if \<not> acquired
        then (Inl (Status Aborted (volumeOperationAlreadyExistsFmt (smb e)) [AStr volumeID]),
              (w1, snd s))
      else
      (case (case effect (Cleanup_SMBMountPoint stagingTargetPath)
                    (CleanupSMBMountPoint e stagingTargetPath True) (w1, snd s) of
               (Some err, s1) \<Rightarrow>
                 (Inl (Status Internal ''failed to unmount staging target %q: %v''
                    [AStr stagingTargetPath, AErr err]), s1)
             | (None, s1) \<Rightarrow>
                 (case deleteKerberosCache e volumeID s1 of
                    (Some err, s2) \<Rightarrow>
                      (Inl (Status Internal ''failed to delete kerberos cache: %v'' [AErr err]), s2)
                  | (None, s2) \<Rightarrow> (Inr (), s2))) of
         (r, s3) \<Rightarrow> (r, (volumeLocks_Release e volumeID (fst s3), snd s3))))))"

definition NodeExpandVolume :: "'w env \<Rightarrow> 'w state \<Rightarrow> (error + unit) \<times> 'w state" where
  "NodeExpandVolume e s = (Inl (Status Unimplemented [] []), s)"

section \<open>A simulated node\<close>

text \<open>
  An instance of the environment, small enough to run: a flat file system (a path is
  a key, compared as written), a mount table, the mount points whose remote end is
  gone, the volume locks that are held, the paths that cannot be removed and the
  paths on which mounting and unmounting fail. It serves to run the node server on
  concrete requests; the theorems that name no simulated node hold for every
  environment.
\<close>

datatype inode = File string int int | Symlink string | Dir

record sim_state =
  files :: "(string \<times> inode) list"
  mtab :: "string list"
  stale :: "string list"
  held :: "string list"
  denied :: "string list"
  busy :: "string list"

text \<open>
  Following symbolic links, at most \<open>n\<close> of them: the path reached and what is there,
  or \<open>None\<close> for too many links.
\<close>

fun resolve :: "nat \<Rightarrow> (string \<times> inode) list \<Rightarrow> string \<Rightarrow> (string \<times> inode option) option" where
  "resolve n fs p =
     (case map_of fs p of
        Some (Symlink t) \<Rightarrow> if n = 0 then None else resolve (n - 1) fs t
      | r \<Rightarrow> Some (p, r))"

declare resolve.simps [simp del]

definition sim_Stat :: "string \<Rightarrow> sim_state \<Rightarrow> error option" where
  "sim_Stat p w =
     (case resolve 40 (files w) p of
        None \<Rightarrow> Some (Err ''too many levels of symbolic links'')
      | Some (q, None) \<Rightarrow> Some (ErrNotExist q)
      | Some (q, Some _) \<Rightarrow> None)"

definition sim_Lstat :: "string \<Rightarrow> sim_state \<Rightarrow> error option" where
  "sim_Lstat p w =
     (case map_of (files w) p of None \<Rightarrow> Some (ErrNotExist p) | Some _ \<Rightarrow> None)"

definition sim_Readlink :: "string \<Rightarrow> sim_state \<Rightarrow> string \<times> error option" where
  "sim_Readlink p w =
     (case map_of (files w) p of
        Some (Symlink t) \<Rightarrow> (t, None)
      | Some _ \<Rightarrow> ([], Some (Err ''invalid argument''))
      | None \<Rightarrow> ([], Some (ErrNotExist p)))"

text \<open>The names of the entries of a directory, in the order the file system holds them.\<close>

definition withSlash :: "string \<Rightarrow> string" where
  "withSlash dir = (if dir \<noteq> [] \<and> last dir = CHR ''/'' then dir else dir @ ''/'')"

definition childName :: "string \<Rightarrow> string \<Rightarrow> string option" where
  "childName dir p =
     (let d = withSlash dir; n = drop (length d) p
      in if take (length d) p = d \<and> n \<noteq> [] \<and> CHR ''/'' \<notin> set n then Some n else None)"

definition sim_ReadDir :: "string \<Rightarrow> sim_state \<Rightarrow> string list \<times> error option" where
  "sim_ReadDir dir w =
     (if dir \<in> set (stale w) then ([], Some (Err ''stale NFS file handle''))
      else (case map_of (files w) dir of
              Some Dir \<Rightarrow> (List.map_filter (\<lambda>(p, _). childName dir p) (files w), None)
            | Some _ \<Rightarrow> ([], Some (Err ''not a directory''))
            | None \<Rightarrow> ([], Some (ErrNotExist dir))))"

definition sim_MkdirAll :: "string \<Rightarrow> nat \<Rightarrow> sim_state \<Rightarrow> error option \<times> sim_state" where
  "sim_MkdirAll p perm w =
     (case map_of (files w) p of
        Some Dir \<Rightarrow> (None, w)
      | Some _ \<Rightarrow> (Some (Err ''not a directory''), w)
      | None \<Rightarrow> (None, w\<lparr>files := AList.update p Dir (files w)\<rparr>))"

definition sim_Remove :: "string \<Rightarrow> sim_state \<Rightarrow> error option \<times> sim_state" where
  "sim_Remove p w =
     (if p \<in> set (denied w) then (Some (Err ''operation not permitted''), w)
      else (case map_of (files w) p of
              None \<Rightarrow> (Some (ErrNotExist p), w)
            | Some Dir \<Rightarrow>
                if List.map_filter (\<lambda>(q, _). childName p q) (files w) \<noteq> []
                  then (Some (Err ''directory not empty''), w)
                else (None, w\<lparr>files := AList.delete p (files w)\<rparr>)
            | Some _ \<Rightarrow> (None, w\<lparr>files := AList.delete p (files w)\<rparr>)))"

definition sim_WriteFile :: "string \<Rightarrow> string \<Rightarrow> nat \<Rightarrow> sim_state \<Rightarrow> error option \<times> sim_state" where
  "sim_WriteFile p content perm w =
     (case resolve 40 (files w) p of
        None \<Rightarrow> (Some (Err ''too many levels of symbolic links''), w)
      | Some (q, Some Dir) \<Rightarrow> (Some (Err ''is a directory''), w)
      | Some (q, Some (File _ uid gid)) \<Rightarrow>
          (None, w\<lparr>files := AList.update q (File content uid gid) (files w)\<rparr>)
      | Some (q, _) \<Rightarrow> (None, w\<lparr>files := AList.update q (File content 0 0) (files w)\<rparr>))"

definition sim_Chown :: "string \<Rightarrow> int \<Rightarrow> int \<Rightarrow> sim_state \<Rightarrow> error option \<times> sim_state" where
  "sim_Chown p uid gid w =
     (case resolve 40 (files w) p of
        None \<Rightarrow> (Some (Err ''too many levels of symbolic links''), w)
      | Some (q, Some (File content _ _)) \<Rightarrow>
          (None, w\<lparr>files := AList.update q (File content uid gid) (files w)\<rparr>)
      | Some (q, Some _) \<Rightarrow> (None, w)
      | Some (q, None) \<Rightarrow> (Some (ErrNotExist q), w))"

definition sim_Symlink :: "string \<Rightarrow> string \<Rightarrow> sim_state \<Rightarrow> error option \<times> sim_state" where
  "sim_Symlink oldname newname w =
     (case map_of (files w) newname of
        Some _ \<Rightarrow> (Some (ErrExist newname), w)
      | None \<Rightarrow> (None, w\<lparr>files := AList.update newname (Symlink oldname) (files w)\<rparr>))"

definition sim_IsCorruptedDir :: "string \<Rightarrow> sim_state \<Rightarrow> bool" where
  "sim_IsCorruptedDir p w = (p \<in> set (stale w))"

definition sim_IsLikelyNotMountPoint :: "string \<Rightarrow> sim_state \<Rightarrow> bool \<times> error option" where
  "sim_IsLikelyNotMountPoint p w =
     (if p \<in> set (stale w) then (True, Some (Err ''stale NFS file handle''))
      else (case sim_Stat p w of
              Some err \<Rightarrow> (True, Some err)
            | None \<Rightarrow> (p \<notin> set (mtab w), None)))"

definition sim_Mount :: "string \<Rightarrow> sim_state \<Rightarrow> error option \<times> sim_state" where
  "sim_Mount target w =
     (if target \<in> set (busy w) then (Some (Err ''permission denied''), w)
      else (None, w\<lparr>mtab := mtab w @ [target]\<rparr>))"

definition sim_Unmount :: "string \<Rightarrow> sim_state \<Rightarrow> error option \<times> sim_state" where
  "sim_Unmount target w =
     (if target \<in> set (busy w) then (Some (Err ''device or resource busy''), w)
      else (None, w\<lparr>mtab := removeAll target (mtab w), stale := removeAll target (stale w)\<rparr>))"

text \<open>
  Modelled from the spec: the Volume Lock Table, which the sources do not hold.
  \<open>tryAcquire\<close> does not block and is true iff this call obtained the lock; \<open>release\<close>
  is idempotent.
\<close>

definition sim_TryAcquire :: "string \<Rightarrow> sim_state \<Rightarrow> bool \<times> sim_state" where
  "sim_TryAcquire volumeID w =
     (if volumeID \<in> set (held w) then (False, w) else (True, w\<lparr>held := volumeID # held w\<rparr>))"

definition sim_Release :: "string \<Rightarrow> sim_state \<Rightarrow> sim_state" where
  "sim_Release volumeID w = w\<lparr>held := removeAll volumeID (held w)\<rparr>"

text \<open>
  Modelled from the spec: guest-mode flags suppress the username and password
  requirement; the helper \<open>hasGuestMountOptions\<close> is not in the sources.
\<close>

definition sim_hasGuestMountOptions :: "string list \<Rightarrow> bool" where
  "sim_hasGuestMountOptions options = (''guest'' \<in> set options)"

text \<open>
  Modelled from the spec: the helper \<open>replaceWithMap\<close>, which is not in the sources,
  substitutes the placeholder tokens of the map in the sub-path by their values.
\<close>

definition sim_replaceWithMap :: "string \<Rightarrow> (string \<times> string) list \<Rightarrow> string" where
  "sim_replaceWithMap str m =
     foldl (\<lambda>str (k, v). if k \<noteq> [] then ReplaceAll str k v else str) str m"

text \<open>
  Modelled from the spec: the recognised context, secret and placeholder keys and the
  \<open>krb5cc_\<close> prefix of the canonical cache name, as section 6 of the spec lists them.
  The cache directory, the default domain and the contention message are not given
  there and are chosen here.
\<close>

definition sim_constants :: smb_constants where
  "sim_constants =
     \<lparr> sourceField = ''source'',
       subDirField = ''subdir'',
       pvcNamespaceKey = ''csi.storage.k8s.io/pvc/namespace'',
       pvcNameKey = ''csi.storage.k8s.io/pvc/name'',
       pvNameKey = ''csi.storage.k8s.io/pv/name'',
       pvcNamespaceMetadata = ''${pvc.metadata.namespace}'',
       pvcNameMetadata = ''${pvc.metadata.name}'',
       pvNameMetadata = ''${pv.metadata.name}'',
       usernameField = ''username'',
       passwordField = ''password'',
       domainField = ''domain'',
       defaultDomainName = ''AZURE'',
       krb5Prefix = ''krb5cc_'',
       krb5CacheDirectory = ''/krb5/'',
       volumeOperationAlreadyExistsFmt = ''An operation with the given Volume ID %s already exists'' \<rparr>"

definition sim :: "sim_state env" where
  "sim =
     \<lparr> goos_windows = False,
       smb = sim_constants,
       mounter_IsLikelyNotMountPoint = sim_IsLikelyNotMountPoint,
       mounter_List = (\<lambda>w. (mtab w, None)),
       mounter_Mount = (\<lambda>source target fstype options. sim_Mount target),
       mounter_Unmount = sim_Unmount,
       volumeLocks_TryAcquire = sim_TryAcquire,
       volumeLocks_Release = sim_Release,
       os_ReadDir = sim_ReadDir,
       os_MkdirAll = sim_MkdirAll,
       os_Remove = sim_Remove,
       os_Stat = sim_Stat,
       os_Lstat = sim_Lstat,
       os_Readlink = sim_Readlink,
       os_WriteFile = sim_WriteFile,
       os_Chown = sim_Chown,
       os_Symlink = sim_Symlink,
       filepath_Abs = (\<lambda>p w. (p, None)),
       hasGuestMountOptions = sim_hasGuestMountOptions,
       replaceWithMap = sim_replaceWithMap,
       IsCorruptedDir = sim_IsCorruptedDir,
       prepareStagePath = (\<lambda>p w. (None, w)),
       preparePublishPath = (\<lambda>p w. (None, w)),
       Mount = (\<lambda>source target fstype options sensitiveOptions. sim_Mount target),
       CleanupMountPoint = (\<lambda>p extensiveMountPointCheck w. sim_Unmount p w),
       CleanupSMBMountPoint = (\<lambda>p extensiveMountPointCheck w. sim_Unmount p w) \<rparr>"

subsection \<open>Example nodes and requests\<close>

text \<open>A node with an empty cache directory and nothing mounted.\<close>

definition node0 :: sim_state where
  "node0 = \<lparr>files = [(''/krb5/'', Dir)], mtab = [], stale = [], held = [], denied = [], busy = []\<rparr>"

text \<open>The node after volume \<open>v1\<close> has been staged at \<open>/stage/v1\<close>.\<close>

definition node1 :: sim_state where
  "node1 = \<lparr>files = [(''/krb5/'', Dir), (''/stage/v1'', Dir)], mtab = [''/stage/v1''],
             stale = [], held = [], denied = [], busy = []\<rparr>"

text \<open>The node after the volume has also been published at \<open>/pods/p1\<close>.\<close>

definition node2 :: sim_state where
  "node2 = \<lparr>files = [(''/krb5/'', Dir), (''/stage/v1'', Dir), (''/pods/p1'', Dir)],
             mtab = [''/stage/v1'', ''/pods/p1''], stale = [], held = [], denied = [], busy = []\<rparr>"

definition cap0 :: Capability where
  "cap0 = \<lparr>GetMount = Some \<lparr>MountFlags = [], VolumeMountGroup = []\<rparr>\<rparr>"

text \<open>The stage request of the example scenario of the spec.\<close>

definition stage_v1 :: NodeStageVolumeRequest where
  "stage_v1 =
     \<lparr>VolumeId = ''v1'', VolumeCapability = Some cap0, StagingTargetPath = ''/stage/v1'',
      VolumeContext = [(''source'', ''//server/share'')],
      Secrets = [(''username'', ''u''), (''password'', ''p'')]\<rparr>"

definition publish_v1 :: NodePublishVolumeRequest where
  "publish_v1 =
     \<lparr>VolumeId = ''v1'', VolumeCapability = Some cap0, StagingTargetPath = ''/stage/v1'',
      VolumeContext = [], Secrets = [], TargetPath = ''/pods/p1'', Readonly = False\<rparr>"

text \<open>A node whose cache directory is a symbolic link to itself; the cache file of \<open>v1\<close> is there.\<close>

definition node_loop :: sim_state where
  "node_loop = \<lparr>files = [(''/krb5/'', Symlink ''/krb5/''), (''/krb5/djE='', File ''hello'' 0 0)],
                 mtab = [], stale = [], held = [], denied = [], busy = []\<rparr>"

text \<open>
  The mount flags and the secrets of a Kerberos mount for the credential UID 1000; the
  ticket is the base64 form of \<open>hello\<close>.
\<close>

definition krb_flags :: "string list" where
  "krb_flags = [''sec=krb5'', ''cruid=1000'']"

definition krb_secrets :: "(string \<times> string) list" where
  "krb_secrets = [(''krb5cc_1000'', ''aGVsbG8='')]"

text \<open>A node on which the canonical cache file of the UID 1000 cannot be removed.\<close>

definition node_denied :: sim_state where
  "node_denied = node0\<lparr>denied := [''/krb5/krb5cc_1000'']\<rparr>"

text \<open>A node that holds the cache file of volume \<open>v2\<close>.\<close>

definition node_v2 :: sim_state where
  "node_v2 = node0\<lparr>files := [(''/krb5/'', Dir), (''/krb5/djI='', File ''ticket of v2'' 7 7)]\<rparr>"

text \<open>
  A node that holds the cache file of volume \<open>v2\<close>, and where the cache path of volume
  \<open>v1\<close> is a symbolic link to it.
\<close>

definition node_linked :: sim_state where
  "node_linked =
     node0\<lparr>files := [(''/krb5/'', Dir), (''/krb5/djI='', File ''ticket of v2'' 7 7),
                      (''/krb5/djE='', Symlink ''/krb5/djI='')]\<rparr>"

text \<open>The calls of the first stage and of the first publish of volume \<open>v1\<close>.\<close>

definition stage_calls :: "call list" where
  "stage_calls =
     [Os_MkdirAll ''/stage/v1'' 488, Os_MkdirAll ''/stage/v1'' 493, PrepareStagePath ''/stage/v1'',
      SMB_Mount ''//server/share'' ''/stage/v1'' ''cifs'' [] [''username=u,password=p'']]"

definition publish_calls :: "call list" where
  "publish_calls =
     [Os_MkdirAll ''/pods/p1'' 493, PreparePublishPath ''/pods/p1'',
      Mounter_Mount ''/stage/v1'' ''/pods/p1'' [] [''bind'']]"

text \<open>The stage request without secrets: the mount flags are empty, so this is not a guest mount.\<close>

definition stage_nocreds :: NodeStageVolumeRequest where
  "stage_nocreds = stage_v1\<lparr>Secrets := []\<rparr>"

text \<open>A stage request with a sub-directory of placeholders; the keys of the context are matched in any case.\<close>

definition stage_subdir :: NodeStageVolumeRequest where
  "stage_subdir =
     stage_v1\<lparr>VolumeContext :=
       [(''Source'', ''//server/share//''),
        (''subDir'', ''${pvc.metadata.namespace}/${pvc.metadata.name}''),
        (''csi.storage.k8s.io/pvc/namespace'', ''ns1''),
        (''csi.storage.k8s.io/pvc/name'', ''claim1'')]\<rparr>"

text \<open>
  A Windows node on which preparing a path fails: there \<open>prepareStagePath\<close> and
  \<open>preparePublishPath\<close> remove the directory, which can fail.
\<close>

definition sim_windows :: "sim_state env" where
  "sim_windows =
     sim\<lparr>goos_windows := True,
         prepareStagePath := (\<lambda>p w. (Some (Err ''The directory is not empty''), w)),
         preparePublishPath := (\<lambda>p w. (Some (Err ''The directory is not empty''), w))\<rparr>"

section \<open>Running the simulated node\<close>

lemma sim_fields:
  "goos_windows sim = False"
  "smb sim = sim_constants"
  "mounter_IsLikelyNotMountPoint sim = sim_IsLikelyNotMountPoint"
  "mounter_List sim = (\<lambda>w. (mtab w, None))"
  "mounter_Mount sim = (\<lambda>source target fstype options. sim_Mount target)"
  "mounter_Unmount sim = sim_Unmount"
  "volumeLocks_TryAcquire sim = sim_TryAcquire"
  "volumeLocks_Release sim = sim_Release"
  "os_ReadDir sim = sim_ReadDir"
  "os_MkdirAll sim = sim_MkdirAll"
  "os_Remove sim = sim_Remove"
  "os_Stat sim = sim_Stat"
  "os_Lstat sim = sim_Lstat"
  "os_Readlink sim = sim_Readlink"
  "os_WriteFile sim = sim_WriteFile"
  "os_Chown sim = sim_Chown"
  "os_Symlink sim = sim_Symlink"
  "filepath_Abs sim = (\<lambda>p w. (p, None))"
  "hasGuestMountOptions sim = sim_hasGuestMountOptions"
  "replaceWithMap sim = sim_replaceWithMap"
  "IsCorruptedDir sim = sim_IsCorruptedDir"
  "prepareStagePath sim = (\<lambda>p w. (None, w))"
  "preparePublishPath sim = (\<lambda>p w. (None, w))"
  "Mount sim = (\<lambda>source target fstype options sensitiveOptions. sim_Mount target)"
  "CleanupMountPoint sim = (\<lambda>p extensiveMountPointCheck w. sim_Unmount p w)"
  "CleanupSMBMountPoint sim = (\<lambda>p extensiveMountPointCheck w. sim_Unmount p w)"
  by (simp_all add: sim_def)

lemmas sim_ops = sim_Stat_def sim_Lstat_def sim_Readlink_def sim_ReadDir_def sim_MkdirAll_def
  sim_Remove_def sim_WriteFile_def sim_Chown_def sim_Symlink_def sim_IsCorruptedDir_def
  sim_IsLikelyNotMountPoint_def sim_Mount_def sim_Unmount_def sim_TryAcquire_def sim_Release_def
  sim_hasGuestMountOptions_def sim_replaceWithMap_def resolve.simps childName_def withSlash_def
  List.map_filter_def

lemma sim_windows_fields:
  "goos_windows sim_windows = True"
  "smb sim_windows = sim_constants"
  "mounter_IsLikelyNotMountPoint sim_windows = sim_IsLikelyNotMountPoint"
  "mounter_Mount sim_windows = (\<lambda>source target fstype options. sim_Mount target)"
  "mounter_Unmount sim_windows = sim_Unmount"
  "volumeLocks_TryAcquire sim_windows = sim_TryAcquire"
  "volumeLocks_Release sim_windows = sim_Release"
  "os_ReadDir sim_windows = sim_ReadDir"
  "os_MkdirAll sim_windows = sim_MkdirAll"
  "os_Remove sim_windows = sim_Remove"
  "hasGuestMountOptions sim_windows = sim_hasGuestMountOptions"
  "IsCorruptedDir sim_windows = sim_IsCorruptedDir"
  "prepareStagePath sim_windows = (\<lambda>p w. (Some (Err ''The directory is not empty''), w))"
  "preparePublishPath sim_windows = (\<lambda>p w. (Some (Err ''The directory is not empty''), w))"
  by (simp_all add: sim_windows_def sim_def)

lemmas server_defs = NodeStageVolume_def NodePublishVolume_def stageOptions_def stageMount_def
  ensureMountPoint_def makeDir_def ensureKerberosCache_def deleteKerberosCache_def
  kerberosCacheDirectoryExists_def getKerberosCache_def getKrb5CcacheName_def
  getKerberosFilePath_def scanContext_def scanSecrets_def mountCondition_def mountSource_def
  mountOutcome_def PollImmediate_def effect_def checkGidPresentInMountFlags_def
  hasKerberosMountOption_def GetMountFlags_def GetVolumeMountGroup_def Let_def

lemmas string_defs = HasPrefix_def TrimPrefix_def TrimRight_def ToLower_def lower_def
  TrimSpace_def isSpace_def

lemmas sim_examples = sim_constants_def node0_def node1_def node2_def cap0_def stage_v1_def
  publish_v1_def stage_calls_def publish_calls_def stage_nocreds_def stage_subdir_def
  krb_flags_def krb_secrets_def node_denied_def node_linked_def node_v2_def

section \<open>The cache name of a volume determines the volume\<close>

lemma distinct_encodeStd: "distinct encodeStd"
  by (simp add: encodeStd_def)

lemma length_encodeStd: "length encodeStd = 64"
  by (simp add: encodeStd_def)

lemma sextet_eq_iff: "sextet i = sextet j \<longleftrightarrow> i mod 64 = j mod 64"
  unfolding sextet_def using distinct_encodeStd length_encodeStd
  by (simp add: nth_eq_iff_index_eq)

lemma sextet_in: "sextet i \<in> set encodeStd"
  unfolding sextet_def by (simp add: length_encodeStd)

lemma pad_notin: "CHR ''='' \<notin> set encodeStd"
  by (simp add: encodeStd_def)

lemma sextet_not_pad [simp]: "sextet i \<noteq> CHR ''=''" "CHR ''='' \<noteq> sextet i"
  using sextet_in[of i] pad_notin by metis+

lemma bytes_from_val:
  fixes a b c a' b' c' :: nat
  assumes "a < 256" "b < 256" "c < 256" "a' < 256" "b' < 256" "c' < 256"
    and eq: "a * 65536 + b * 256 + c = a' * 65536 + b' * 256 + c'"
  shows "a = a' \<and> b = b' \<and> c = c'"
proof -
  have a: "a = a'"
  proof (rule ccontr)
    assume "a \<noteq> a'"
    then consider "a + 1 \<le> a'" | "a' + 1 \<le> a" by linarith
    then show False using assms by cases linarith+
  qed
  have b: "b = b'"
  proof (rule ccontr)
    assume "b \<noteq> b'"
    then consider "b + 1 \<le> b'" | "b' + 1 \<le> b" by linarith
    then show False using assms a by cases linarith+
  qed
  show ?thesis using a b eq by simp
qed

lemma sextets_of_val:
  fixes x :: nat
  assumes "x < 16777216"
  shows "x = ((x div 262144) mod 64) * 262144 + ((x div 4096) mod 64) * 4096
               + ((x div 64) mod 64) * 64 + x mod 64"
proof -
  define q1 where "q1 = x div 64"
  define q2 where "q2 = q1 div 64"
  define q3 where "q3 = q2 div 64"
  have 1: "x div 4096 = q2" and 2: "x div 262144 = q3"
    by (simp_all add: q1_def q2_def q3_def div_mult2_eq[symmetric])
  have 3: "q3 < 64" using assms unfolding 2[symmetric] by simp
  have e1: "x = 64 * q1 + x mod 64" unfolding q1_def by simp
  have e2: "q1 = 64 * q2 + q1 mod 64" unfolding q2_def by simp
  have e3: "q2 = 64 * q3 + q2 mod 64" unfolding q3_def by simp
  have "x = q3 * 262144 + (q2 mod 64) * 4096 + (q1 mod 64) * 64 + x mod 64"
    using e1 e2 e3 by linarith
  then show ?thesis using 3 by (simp add: 1 2 q1_def[symmetric])
qed

lemma val_from_sextets:
  fixes v w :: nat
  assumes "(v div 262144) mod 64 = (w div 262144) mod 64"
    and "(v div 4096) mod 64 = (w div 4096) mod 64"
    and "(v div 64) mod 64 = (w div 64) mod 64"
    and "v mod 64 = w mod 64"
    and "v < 16777216" "w < 16777216"
  shows "v = w"
  using sextets_of_val[OF assms(5)] sextets_of_val[OF assms(6)] assms(1-4) by simp

lemma val3_lt: "val3 a b c < 16777216"
proof -
  have "(of_char a :: nat) < 256" "(of_char b :: nat) < 256" "(of_char c :: nat) < 256"
    by simp_all
  then show ?thesis unfolding val3_def by linarith
qed

lemma val3_inj:
  assumes "val3 a b c = val3 a' b' c'"
  shows "a = a' \<and> b = b' \<and> c = c'"
proof -
  have "(of_char a :: nat) = of_char a' \<and> (of_char b :: nat) = of_char b'
          \<and> (of_char c :: nat) = of_char c'"
    using assms unfolding val3_def by (intro bytes_from_val) simp_all
  then show ?thesis by simp
qed

lemma group_inj:
  assumes "sextet (val3 a b c div 262144) = sextet (val3 a' b' c' div 262144)"
    and "sextet (val3 a b c div 4096) = sextet (val3 a' b' c' div 4096)"
    and "sextet (val3 a b c div 64) = sextet (val3 a' b' c' div 64)"
    and "sextet (val3 a b c) = sextet (val3 a' b' c')"
  shows "a = a' \<and> b = b' \<and> c = c'"
  using assms val_from_sextets[OF _ _ _ _ val3_lt val3_lt, of a b c a' b' c'] val3_inj
  by (simp add: sextet_eq_iff)

lemma EncodeToString_val3:
  "EncodeToString (a # b # c # src) =
     sextet (val3 a b c div 262144) # sextet (val3 a b c div 4096) # sextet (val3 a b c div 64)
       # sextet (val3 a b c) # EncodeToString src"
  "EncodeToString [a, b] =
     [sextet (val3 a b (CHR 0x00) div 262144), sextet (val3 a b (CHR 0x00) div 4096),
      sextet (val3 a b (CHR 0x00) div 64), CHR ''='']"
  "EncodeToString [a] =
     [sextet (val3 a (CHR 0x00) (CHR 0x00) div 262144),
      sextet (val3 a (CHR 0x00) (CHR 0x00) div 4096), CHR ''='', CHR ''='']"
  by (simp_all add: val3_def Let_def)

lemma EncodeToString_inj: "EncodeToString xs = EncodeToString ys \<Longrightarrow> xs = ys"
proof (induction xs arbitrary: ys rule: EncodeToString.induct)
  case (1 a b c src)
  show ?case
  proof (cases ys rule: EncodeToString.cases)
    case (1 a' b' c' src')
    with "1.prems" have g: "a = a' \<and> b = b' \<and> c = c'"
      and r: "EncodeToString src = EncodeToString src'"
      by (auto simp only: EncodeToString_val3 list.inject dest: group_inj)
    from "1.IH"[OF refl r] g 1 show ?thesis by simp
  next
    case (2 a' b')
    with "1.prems" show ?thesis by (simp only: EncodeToString_val3 list.inject) simp
  next
    case (3 a')
    with "1.prems" show ?thesis by (simp only: EncodeToString_val3 list.inject) simp
  next
    case 4
    with "1.prems" show ?thesis by (simp only: EncodeToString_val3 EncodeToString.simps) simp
  qed
next
  case (2 a b)
  show ?case
  proof (cases ys rule: EncodeToString.cases)
    case (1 a' b' c' src')
    with "2.prems" show ?thesis by (simp only: EncodeToString_val3 list.inject) simp
  next
    case (2 a' b')
    with "2.prems" have "a = a' \<and> b = b' \<and> CHR 0x00 = CHR 0x00"
      by (simp only: EncodeToString_val3 list.inject)
        (intro group_inj, simp_all add: sextet_eq_iff val3_def)
    with 2 show ?thesis by simp
  next
    case (3 a')
    with "2.prems" show ?thesis by (simp only: EncodeToString_val3 list.inject) simp
  next
    case 4
    with "2.prems" show ?thesis by (simp only: EncodeToString_val3 EncodeToString.simps) simp
  qed
next
  case (3 a)
  show ?case
  proof (cases ys rule: EncodeToString.cases)
    case (1 a' b' c' src')
    with "3.prems" show ?thesis by (simp only: EncodeToString_val3 list.inject) simp
  next
    case (2 a' b')
    with "3.prems" show ?thesis by (simp only: EncodeToString_val3 list.inject) simp
  next
    case (3 a')
    with "3.prems" have "a = a' \<and> CHR 0x00 = CHR 0x00 \<and> CHR 0x00 = CHR 0x00"
      by (simp only: EncodeToString_val3 list.inject)
        (intro group_inj, simp_all add: sextet_eq_iff val3_def)
    with 3 show ?thesis by simp
  next
    case 4
    with "3.prems" show ?thesis by (simp only: EncodeToString_val3 EncodeToString.simps) simp
  qed
next
  case 4
  then show ?case by (cases ys rule: EncodeToString.cases) (simp_all add: Let_def)
qed

lemma ReplaceAll_single: "ReplaceAll s [a] [b] = map (\<lambda>c. if c = a then b else c) s"
  by (induction s) (simp_all add: HasPrefix_def)

lemma EncodeToString_chars: "set (EncodeToString xs) \<subseteq> insert (CHR ''='') (set encodeStd)"
  by (induction xs rule: EncodeToString.induct) (simp_all add: Let_def sextet_in)

lemma volumeKerberosCacheName_inj:
  assumes "volumeKerberosCacheName v = volumeKerberosCacheName v'"
  shows "v = v'"
proof -
  let ?f = "\<lambda>c. if c = CHR ''/'' then CHR ''-'' else c"
  let ?g = "\<lambda>c. if c = CHR ''+'' then CHR ''_'' else c"
  let ?A = "insert (CHR ''='') (set encodeStd)"
  have inj: "inj_on (?g \<circ> ?f) ?A"
    by (simp add: encodeStd_def inj_on_def)
  have "map (?g \<circ> ?f) (EncodeToString v) = map (?g \<circ> ?f) (EncodeToString v')"
    using assms by (simp add: volumeKerberosCacheName_def ReplaceAll_single Let_def)
  moreover have "inj_on (?g \<circ> ?f) (set (EncodeToString v) \<union> set (EncodeToString v'))"
    using inj EncodeToString_chars[of v] EncodeToString_chars[of v']
    by (meson Un_least inj_on_subset)
  ultimately have "EncodeToString v = EncodeToString v'"
    by (rule map_inj_on)
  then show ?thesis by (rule EncodeToString_inj)
qed

text \<open>
  C9. \<open>volumeKerberosCacheName\<close> is injective: two distinct volume IDs have distinct
  cache file names, and so distinct cache file paths, whatever the cache directory
  is. The path that \<open>deleteKerberosCache\<close> checks and removes for one volume is
  therefore never the cache file of another volume.
\<close>

theorem volumeKerberosCacheName_injective:
  assumes "v \<noteq> v'"
  shows "volumeKerberosCacheName v \<noteq> volumeKerberosCacheName v'
    \<and> getKerberosFilePath k (volumeKerberosCacheName v)
        \<noteq> getKerberosFilePath k (volumeKerberosCacheName v')"
  using assms volumeKerberosCacheName_inj[of v v'] by (auto simp: getKerberosFilePath_def)

text \<open>Two volume IDs that differ in their last character only.\<close>

theorem volumeKerberosCacheName_injective_witness:
  "''vol-1'' \<noteq> ''vol-2''
   \<and> volumeKerberosCacheName ''vol-1'' \<noteq> volumeKerberosCacheName ''vol-2''
   \<and> getKerberosFilePath sim_constants (volumeKerberosCacheName ''vol-1'')
        \<noteq> getKerberosFilePath sim_constants (volumeKerberosCacheName ''vol-2'')"
  using volumeKerberosCacheName_injective[of "''vol-1''" "''vol-2''" sim_constants] by simp

section \<open>Deleting the cache when the cache directory cannot be read\<close>

text \<open>
  C10. Whenever \<open>os.Stat\<close> of the Kerberos cache directory fails, for whatever reason,
  \<open>deleteKerberosCache\<close> returns nil and changes nothing and calls nothing:
  \<open>kerberosCacheDirectoryExists\<close> returns false beside every error, and
  \<open>deleteKerberosCache\<close> tests the boolean first. In no state does
  \<open>kerberosCacheDirectoryExists\<close> return true beside an error, so the branch
  \<open>if err != nil { return err }\<close> that follows is never taken.
\<close>

theorem deleteKerberosCache_stat_error:
  assumes "os_Stat e (krb5CacheDirectory (smb e)) (fst s) = Some err"
  shows "deleteKerberosCache e volumeID s = (None, s)
    \<and> fst (kerberosCacheDirectoryExists e (fst s)) = False
    \<and> snd (kerberosCacheDirectoryExists e (fst s)) \<noteq> None
    \<and> (\<forall>w. fst (kerberosCacheDirectoryExists e w) \<longrightarrow> snd (kerberosCacheDirectoryExists e w) = None)"
  using assms
  by (simp add: deleteKerberosCache_def kerberosCacheDirectoryExists_def split: option.splits)

text \<open>
  A cache directory that is a symbolic link to itself: \<open>os.Stat\<close> fails with an error
  other than "does not exist", and the cache file of the volume stays where it is.
\<close>

theorem deleteKerberosCache_stat_error_witness:
  "os_Stat sim (krb5CacheDirectory (smb sim)) (fst (node_loop, []))
     = Some (Err ''too many levels of symbolic links'')
   \<and> deleteKerberosCache sim ''v1'' (node_loop, []) = (None, (node_loop, []))"
proof -
  have h: "os_Stat sim (krb5CacheDirectory (smb sim)) (fst (node_loop, []))
     = Some (Err ''too many levels of symbolic links'')"
    by (simp add: sim_fields sim_constants_def sim_Stat_def node_loop_def resolve.simps)
  show ?thesis
    using h deleteKerberosCache_stat_error[OF h, of "''v1''"] by simp
qed

section \<open>A stale mount point\<close>

text \<open>
  C2. The code differs from the claim. A target that is mounted, whose directory
  cannot be listed and whose unmount succeeds: \<open>ensureMountPoint\<close> unmounts it and
  returns "not mounted" together with the error of \<open>os.ReadDir\<close>, not nil. The
  comment above the function promises \<open><false, nil>\<close> for a target that is not a
  mount point.
\<close>

theorem ensureMountPoint_stale_mount:
  "ensureMountPoint sim ''/mnt/x''
     (\<lparr>files = [(''/mnt/x'', Dir)], mtab = [''/mnt/x''], stale = [''/mnt/x''], held = [],
       denied = [], busy = []\<rparr>, [])
   = ((False, Some (Err ''stale NFS file handle'')),
      (\<lparr>files = [(''/mnt/x'', Dir)], mtab = [], stale = [], held = [], denied = [], busy = []\<rparr>,
       [Mounter_Unmount ''/mnt/x'']))"
  by (simp add: ensureMountPoint_def effect_def sim_fields sim_ops)

text \<open>
  In every environment: when \<open>ensureMountPoint\<close> has unmounted the target, it returns
  an error, the one of \<open>os.ReadDir\<close> or the one of the unmount.
\<close>

lemma ensureMountPoint_unmount_returns_error:
  assumes "ensureMountPoint e target s = ((mnt, err), s')"
    and "snd s' = snd s @ [Mounter_Unmount target]"
  shows "err \<noteq> None
    \<and> (err = snd (os_ReadDir e target (fst s)) \<or> err = fst (mounter_Unmount e target (fst s)))"
  using assms
  by (auto simp: ensureMountPoint_def effect_def makeDir_def Let_def
      split: prod.splits if_splits option.splits sum.splits)

section \<open>A target that is already mounted\<close>

lemma ensureMountPoint_mounted:
  assumes "ensureMountPoint e target s = ((True, None), s')"
  shows "s' = s"
  using assms
  by (auto simp: ensureMountPoint_def effect_def makeDir_def Let_def
      split: prod.splits if_splits option.splits sum.splits)


lemma ensureKerberosCache_mountCalls:
  assumes "ensureKerberosCache e volumeID mountFlags secrets s = (r, s')"
  shows "mountCalls s' = mountCalls s"
  using assms
  by (auto simp: ensureKerberosCache_def effect_def mountCalls_def Let_def
      split: prod.splits if_splits option.splits sum.splits)

lemma stageOptions_mountCalls:
  assumes "stageOptions e volumeID targetPath mountFlags volumeMountGroup secrets s = (r, s')"
  shows "mountCalls s' = mountCalls s"
  using assms
  by (auto simp: stageOptions_def Let_def effect_def mountCalls_def
      dest!: ensureKerberosCache_mountCalls split: prod.splits option.splits if_splits)

lemma publish_mounted:
  assumes "VolumeCapability req \<noteq> None" "VolumeId req \<noteq> []" "TargetPath req \<noteq> []"
    "StagingTargetPath req \<noteq> []"
    and probe: "ensureMountPoint e (TargetPath req) s = ((True, None), s')"
  shows "NodePublishVolume e req s = (Inr (), s)"
  using assms ensureMountPoint_mounted[OF probe]
  by (simp add: NodePublishVolume_def Let_def)

lemma stage_mounted:
  assumes "VolumeId req \<noteq> []" "VolumeCapability req = Some cap" "StagingTargetPath req \<noteq> []"
    and "scanContext (smb e) (VolumeContext req) = (source, subDir, subDirReplaceMap)"
    and "source \<noteq> []"
    and "volumeLocks_TryAcquire e (VolumeId req) (fst s) = (True, w1)"
    and opts: "stageOptions e (VolumeId req) (StagingTargetPath req) (GetMountFlags (GetMount cap))
           (GetVolumeMountGroup (GetMount cap)) (Secrets req) (w1, snd s)
         = (Inr (mountOptions, sensitiveMountOptions), s1)"
    and probe: "ensureMountPoint e (StagingTargetPath req) s1 = ((True, None), s2)"
  shows "NodeStageVolume e req s
           = (Inr (), (volumeLocks_Release e (VolumeId req) (fst s1), snd s1))
         \<and> mountCalls s1 = mountCalls s"
proof -
  have "s2 = s1" using probe by (rule ensureMountPoint_mounted)
  then have "stageMount e (VolumeId req) (StagingTargetPath req) source subDir subDirReplaceMap
      mountOptions sensitiveMountOptions s1 = (Inr (), s1)"
    using probe by (simp add: stageMount_def)
  then have "NodeStageVolume e req s
           = (Inr (), (volumeLocks_Release e (VolumeId req) (fst s1), snd s1))"
    using assms(1-7) by (simp add: NodeStageVolume_def Let_def)
  moreover have "mountCalls s1 = mountCalls s"
    using stageOptions_mountCalls[OF opts] by (simp add: mountCalls_def)
  ultimately show ?thesis by simp
qed

text \<open>
  C1. Publish: for a request with its required fields, when the probe of the target
  path reports it mounted and valid (\<open>ensureMountPoint\<close> returns \<open><true, nil>\<close>), publish
  returns success and leaves the node and the list of calls as they were; it calls
  nothing, the mount primitive included. Stage: for a request that reaches the probe
  (required fields and source present, lock acquired, mount options built), when the
  probe reports the staging path mounted and valid, stage returns success, releases
  the lock, and the list of mount calls is the one before the call. A second call
  with the same arguments after a first that mounted is such a call: it succeeds and
  mounts nothing.
\<close>

theorem idempotent_when_mounted:
  "(VolumeCapability pub \<noteq> None \<and> VolumeId pub \<noteq> [] \<and> TargetPath pub \<noteq> []
      \<and> StagingTargetPath pub \<noteq> []
      \<and> ensureMountPoint e (TargetPath pub) s = ((True, None), s')
    \<longrightarrow> NodePublishVolume e pub s = (Inr (), s))
   \<and> (VolumeId req \<noteq> [] \<and> VolumeCapability req = Some cap \<and> StagingTargetPath req \<noteq> []
      \<and> scanContext (smb e) (VolumeContext req) = (source, subDir, subDirReplaceMap)
      \<and> source \<noteq> []
      \<and> volumeLocks_TryAcquire e (VolumeId req) (fst t) = (True, w1)
      \<and> stageOptions e (VolumeId req) (StagingTargetPath req) (GetMountFlags (GetMount cap))
           (GetVolumeMountGroup (GetMount cap)) (Secrets req) (w1, snd t)
         = (Inr (mountOptions, sensitiveMountOptions), t1)
      \<and> ensureMountPoint e (StagingTargetPath req) t1 = ((True, None), t2)
    \<longrightarrow> NodeStageVolume e req t
           = (Inr (), (volumeLocks_Release e (VolumeId req) (fst t1), snd t1))
        \<and> mountCalls t1 = mountCalls t)"
  using publish_mounted[of pub e s s']
    stage_mounted[of req cap e source subDir subDirReplaceMap t w1 mountOptions
      sensitiveMountOptions t1 t2]
  by blast

text \<open>
  Volume \<open>v1\<close> staged twice and published twice on the simulated node: the first call
  mounts, the probe of the second call finds the mount, and the second call succeeds
  with no further mount call.
\<close>

theorem idempotent_when_mounted_witness:
  "NodeStageVolume sim stage_v1 (node0, []) = (Inr (), (node1, stage_calls))
   \<and> ensureMountPoint sim ''/stage/v1''
         (node1\<lparr>held := [''v1'']\<rparr>, stage_calls @ [Os_MkdirAll ''/stage/v1'' 488])
       = ((True, None),
          (node1\<lparr>held := [''v1'']\<rparr>, stage_calls @ [Os_MkdirAll ''/stage/v1'' 488]))
   \<and> NodeStageVolume sim stage_v1 (node1, stage_calls)
       = (Inr (), (node1, stage_calls @ [Os_MkdirAll ''/stage/v1'' 488]))
   \<and> mountCalls (node1, stage_calls @ [Os_MkdirAll ''/stage/v1'' 488])
       = mountCalls (node1, stage_calls)
   \<and> NodePublishVolume sim publish_v1 (node1, []) = (Inr (), (node2, publish_calls))
   \<and> ensureMountPoint sim ''/pods/p1'' (node2, publish_calls)
       = ((True, None), (node2, publish_calls))
   \<and> NodePublishVolume sim publish_v1 (node2, publish_calls) = (Inr (), (node2, publish_calls))"
  using idempotent_when_mounted[where pub = publish_v1 and e = sim
      and s = "(node2, publish_calls)" and s' = "(node2, publish_calls)" and req = stage_v1
      and cap = cap0 and source = "''//server/share''" and subDir = "[]"
      and subDirReplaceMap = "[]" and t = "(node1, stage_calls)"
      and ?w1.0 = "node1\<lparr>held := [''v1'']\<rparr>" and mountOptions = "[]"
      and sensitiveMountOptions = "[''username=u,password=p'']"
      and ?t1.0 = "(node1\<lparr>held := [''v1'']\<rparr>, stage_calls @ [Os_MkdirAll ''/stage/v1'' 488])"
      and ?t2.0 = "(node1\<lparr>held := [''v1'']\<rparr>, stage_calls @ [Os_MkdirAll ''/stage/v1'' 488])"]
  by (simp add: server_defs string_defs sim_fields sim_ops sim_examples mountCalls_def)

section \<open>The mount of stage\<close>






section \<open>The rollback of publish\<close>

text \<open>
  C5. When the probe reports the target not mounted and the bind mount of publish
  fails, publish calls \<open>os.Remove\<close> on the target path right after the mount and
  returns in the state that the removal leaves. When the removal succeeds the error
  is the mount error ("Could not mount"); when the removal fails the error is the
  removal error ("Could not remove mount target"). Both carry the code Internal.
\<close>

theorem publish_rolls_back:
  assumes "VolumeCapability req \<noteq> None" "VolumeId req \<noteq> []" "TargetPath req \<noteq> []"
    "StagingTargetPath req \<noteq> []"
    and "ensureMountPoint e (TargetPath req) s = ((False, None), s1)"
    and "preparePublishPath e (TargetPath req) (fst s1) = (None, w2)"
    and "mounter_Mount e (StagingTargetPath req) (TargetPath req) []
           (if Readonly req then [''bind'', ''ro''] else [''bind'']) w2 = (Some mountErr, w3)"
    and "os_Remove e (TargetPath req) w3 = (removeErr, w4)"
  shows "NodePublishVolume e req s
         = (Inl (case removeErr of
                   Some rerr \<Rightarrow> Status Internal ''Could not remove mount target %q: %v''
                                  [AStr (TargetPath req), AErr rerr]
                 | None \<Rightarrow> Status Internal ''Could not mount %q at %q: %v''
                             [AStr (StagingTargetPath req), AStr (TargetPath req), AErr mountErr]),
            (w4, snd s1 @ [PreparePublishPath (TargetPath req),
                           Mounter_Mount (StagingTargetPath req) (TargetPath req) []
                             (if Readonly req then [''bind'', ''ro''] else [''bind'']),
                           Os_Remove (TargetPath req)]))"
  using assms
  by (cases removeErr; cases "Readonly req")
    (simp_all add: NodePublishVolume_def Let_def effect_def)

text \<open>
  A target on which the bind mount fails: the directory that the probe created is
  gone after the call, the node is as before. When the directory cannot be removed
  either, it stays and the removal error is returned.
\<close>

theorem publish_rolls_back_witness:
  "ensureMountPoint sim ''/pods/p1'' (node1\<lparr>busy := [''/pods/p1'']\<rparr>, [])
     = ((False, None), (node2\<lparr>mtab := [''/stage/v1''], busy := [''/pods/p1'']\<rparr>,
          [Os_MkdirAll ''/pods/p1'' 493]))
   \<and> NodePublishVolume sim publish_v1 (node1\<lparr>busy := [''/pods/p1'']\<rparr>, [])
     = (Inl (Status Internal ''Could not mount %q at %q: %v''
               [AStr ''/stage/v1'', AStr ''/pods/p1'', AErr (Err ''permission denied'')]),
        (node1\<lparr>busy := [''/pods/p1'']\<rparr>,
         [Os_MkdirAll ''/pods/p1'' 493, PreparePublishPath ''/pods/p1'',
          Mounter_Mount ''/stage/v1'' ''/pods/p1'' [] [''bind''], Os_Remove ''/pods/p1'']))
   \<and> NodePublishVolume sim publish_v1
        (node1\<lparr>denied := [''/pods/p1''], busy := [''/pods/p1'']\<rparr>, [])
     = (Inl (Status Internal ''Could not remove mount target %q: %v''
               [AStr ''/pods/p1'', AErr (Err ''operation not permitted'')]),
        (node2\<lparr>mtab := [''/stage/v1''], denied := [''/pods/p1''], busy := [''/pods/p1'']\<rparr>,
         [Os_MkdirAll ''/pods/p1'' 493, PreparePublishPath ''/pods/p1'',
          Mounter_Mount ''/stage/v1'' ''/pods/p1'' [] [''bind''], Os_Remove ''/pods/p1'']))"
  using publish_rolls_back[where req = publish_v1 and e = sim
      and s = "(node1\<lparr>busy := [''/pods/p1'']\<rparr>, [])"
      and ?s1.0 = "(node2\<lparr>mtab := [''/stage/v1''], busy := [''/pods/p1'']\<rparr>,
                    [Os_MkdirAll ''/pods/p1'' 493])"
      and ?w2.0 = "node2\<lparr>mtab := [''/stage/v1''], busy := [''/pods/p1'']\<rparr>"
      and mountErr = "Err ''permission denied''"
      and ?w3.0 = "node2\<lparr>mtab := [''/stage/v1''], busy := [''/pods/p1'']\<rparr>"
      and removeErr = None and ?w4.0 = "node1\<lparr>busy := [''/pods/p1'']\<rparr>"]
  by (simp add: server_defs string_defs sim_fields sim_ops sim_examples)

section \<open>The source that stage mounts\<close>




section \<open>Stage and the credentials\<close>


lemma stageOptions_error:
  assumes "stageOptions e volumeID targetPath mountFlags volumeMountGroup secrets s = (Inl err, s')"
  shows "Code (Some err) = Internal"
  using assms
  by (auto simp: stageOptions_def Let_def split: prod.splits if_splits option.splits)






section \<open>The codes of the failures\<close>

text \<open>
  C6. The code differs from the claim. When \<open>preparePublishPath\<close> or
  \<open>prepareStagePath\<close> fails, publish and stage return the plain error of
  \<open>fmt.Errorf\<close>, which carries no status: its code is Unknown, not Internal. Every
  other failure of the two functions is built with \<open>status.Error\<close> or
  \<open>status.Errorf\<close>.
\<close>

theorem prepare_failure_has_no_code:
  "NodePublishVolume sim_windows publish_v1 (node1, [])
     = (Inl (Errorf ''prepare publish failed for %s with error: %v''
               [AStr ''/pods/p1'', AErr (Err ''The directory is not empty'')]),
        (node2\<lparr>mtab := [''/stage/v1'']\<rparr>,
         [Os_MkdirAll ''/pods/p1'' 493, PreparePublishPath ''/pods/p1'']))
   \<and> NodeStageVolume sim_windows stage_v1 (node0, [])
     = (Inl (Errorf ''prepare stage path failed for %s with error: %v''
               [AStr ''/stage/v1'', AErr (Err ''The directory is not empty'')]),
        (node1\<lparr>mtab := []\<rparr>,
         [Os_MkdirAll ''/stage/v1'' 493, PrepareStagePath ''/stage/v1'']))
   \<and> Code (Some (Errorf ''prepare publish failed for %s with error: %v''
               [AStr ''/pods/p1'', AErr (Err ''The directory is not empty'')])) = Unknown
   \<and> Code (Some (Errorf ''prepare stage path failed for %s with error: %v''
               [AStr ''/stage/v1'', AErr (Err ''The directory is not empty'')])) = Unknown"
  by (simp add: server_defs string_defs sim_windows_fields sim_ops sim_examples)

text \<open>
  In every environment, the failures of publish carry the code InvalidArgument or
  Internal, but for the failure of \<open>preparePublishPath\<close>; those of stage carry
  InvalidArgument, Aborted or Internal, but for the failure of \<open>prepareStagePath\<close>.
\<close>

lemma publish_failure_codes:
  assumes "NodePublishVolume e req s = (Inl err, s')"
  shows "Code (Some err) = InvalidArgument \<or> Code (Some err) = Internal
    \<or> (\<exists>prepareErr. err = Errorf ''prepare publish failed for %s with error: %v''
                               [AStr (TargetPath req), AErr prepareErr])"
  using assms
  by (auto simp: NodePublishVolume_def Let_def split: prod.splits if_splits option.splits)

lemma stageMount_failure_codes:
  assumes "stageMount e volumeID targetPath source subDir m mountOptions sensitiveMountOptions s
             = (Inl err, s')"
  shows "Code (Some err) = Internal
    \<or> (\<exists>prepareErr. err = Errorf ''prepare stage path failed for %s with error: %v''
                               [AStr targetPath, AErr prepareErr])"
  using assms
  by (auto simp: stageMount_def Let_def mountOutcome_def
      split: prod.splits if_splits option.splits)

lemma stage_failure_codes:
  assumes "NodeStageVolume e req s = (Inl err, s')"
  shows "Code (Some err) = InvalidArgument \<or> Code (Some err) = Aborted
    \<or> Code (Some err) = Internal
    \<or> (\<exists>prepareErr. err = Errorf ''prepare stage path failed for %s with error: %v''
                               [AStr (StagingTargetPath req), AErr prepareErr])"
  using assms
  by (auto simp: NodeStageVolume_def Let_def
      dest!: stageOptions_error stageMount_failure_codes
      split: prod.splits if_splits option.splits sum.splits)

section \<open>The round trip of the credential cache\<close>

lemma ensure_success:
  assumes "ensureKerberosCache e volumeID mountFlags secrets s = ((True, None), s')"
  obtains credUID content wA wB wD where
    "getCredUID mountFlags = (credUID, None)"
    "os_Stat e (krb5CacheDirectory (smb e)) (fst s) = None"
    "os_WriteFile e (getKerberosFilePath (smb e) (volumeKerberosCacheName volumeID)) content 448
       (fst s) = (None, wA)"
    "os_Chown e (getKerberosFilePath (smb e) (volumeKerberosCacheName volumeID)) credUID credUID wA
       = (None, wB)"
    "os_Symlink e (getKerberosFilePath (smb e) (volumeKerberosCacheName volumeID))
       (getKerberosFilePath (smb e) (getKrb5CcacheName (smb e) credUID))
       (if IsNotExist (os_Stat e (getKerberosFilePath (smb e) (getKrb5CcacheName (smb e) credUID)) wB)
        then wB
        else snd (os_Remove e (getKerberosFilePath (smb e) (getKrb5CcacheName (smb e) credUID)) wB))
       = (None, wD)"
    "fst s' = wD"
  using assms
  by (auto simp: ensureKerberosCache_def kerberosCacheDirectoryExists_def getKerberosCache_def
      effect_def Let_def
      split: prod.splits if_splits option.splits sum.splits)


lemma resolve_nolink:
  assumes "\<forall>t. map_of fs p \<noteq> Some (Symlink t)"
  shows "resolve n fs p = Some (p, map_of fs p)"
  using assms by (subst resolve.simps) (auto split: option.splits inode.splits)

lemma sim_WriteFile_nolink:
  assumes "sim_WriteFile p content perm w = (None, w')"
    and "\<forall>t. map_of (files w) p \<noteq> Some (Symlink t)"
  shows "\<exists>uid gid. map_of (files w') = (map_of (files w))(p \<mapsto> File content uid gid)"
    and "denied w' = denied w" and "stale w' = stale w"
proof -
  from assms show "\<exists>uid gid. map_of (files w') = (map_of (files w))(p \<mapsto> File content uid gid)"
    by (cases "map_of (files w) p")
      (fastforce simp: sim_WriteFile_def resolve_nolink update_conv' split: inode.splits)+
  from assms show "denied w' = denied w" and "stale w' = stale w"
    by (auto simp: sim_WriteFile_def resolve_nolink split: option.splits inode.splits)
qed

lemma sim_Chown_file:
  assumes "sim_Chown p uid gid w = (r, w')"
    and "map_of (files w) p = Some (File content u g)"
  shows "map_of (files w') = (map_of (files w))(p \<mapsto> File content uid gid)"
    and "denied w' = denied w" and "stale w' = stale w"
  using assms
  by (auto simp: sim_Chown_def resolve_nolink update_conv')

lemma sim_Remove_frame:
  assumes "sim_Remove p w = (r, w')"
  shows "q \<noteq> p \<Longrightarrow> map_of (files w') q = map_of (files w) q"
    and "denied w' = denied w" and "stale w' = stale w"
  using assms
  by (auto simp: sim_Remove_def delete_conv' split: if_splits option.splits inode.splits)

lemma sim_Symlink_ok:
  assumes "sim_Symlink oldname newname w = (None, w')"
  shows "map_of (files w') = (map_of (files w))(newname \<mapsto> Symlink oldname)"
    and "denied w' = denied w" and "stale w' = stale w"
  using assms
  by (auto simp: sim_Symlink_def update_conv' split: option.splits)

lemma sim_ensure_files:
  assumes ens: "ensureKerberosCache sim volumeID mountFlags secrets (w, cs) = ((True, None), s1)"
    and nolink: "\<forall>t. map_of (files w) (getKerberosFilePath (smb sim) (volumeKerberosCacheName volumeID))
                    \<noteq> Some (Symlink t)"
  shows "\<exists>content uid.
           map_of (files (fst s1))
             = ((map_of (files w))
                  (getKerberosFilePath (smb sim) (volumeKerberosCacheName volumeID)
                     \<mapsto> File content uid uid))
                  (getKerberosFilePath (smb sim)
                     (getKrb5CcacheName (smb sim) (fst (getCredUID mountFlags)))
                     \<mapsto> Symlink (getKerberosFilePath (smb sim) (volumeKerberosCacheName volumeID)))"
    and "denied (fst s1) = denied w" and "stale (fst s1) = stale w"
    and "sim_Stat (krb5CacheDirectory (smb sim)) w = None"
proof -
  let ?P = "getKerberosFilePath (smb sim) (volumeKerberosCacheName volumeID)"
  from ens obtain credUID content wA wB wD where
    uid: "getCredUID mountFlags = (credUID, None)"
    and st: "os_Stat sim (krb5CacheDirectory (smb sim)) (fst (w, cs)) = None"
    and wr: "os_WriteFile sim ?P content 448 (fst (w, cs)) = (None, wA)"
    and ch: "os_Chown sim ?P credUID credUID wA = (None, wB)"
    and sy: "os_Symlink sim ?P (getKerberosFilePath (smb sim) (getKrb5CcacheName (smb sim) credUID))
       (if IsNotExist (os_Stat sim (getKerberosFilePath (smb sim) (getKrb5CcacheName (smb sim) credUID)) wB)
        then wB
        else snd (os_Remove sim (getKerberosFilePath (smb sim) (getKrb5CcacheName (smb sim) credUID)) wB))
       = (None, wD)"
    and fin: "fst s1 = wD"
    by (rule ensure_success)
  let ?K = "getKerberosFilePath (smb sim) (getKrb5CcacheName (smb sim) credUID)"
  let ?wC = "if IsNotExist (sim_Stat ?K wB) then wB else snd (sim_Remove ?K wB)"
  from wr nolink obtain u g where
    A: "map_of (files wA) = (map_of (files w))(?P \<mapsto> File content u g)"
    and A': "denied wA = denied w" "stale wA = stale w"
    using sim_WriteFile_nolink[of ?P content 448 w wA] by (auto simp: sim_fields)
  from ch A have
    B: "map_of (files wB) = (map_of (files w))(?P \<mapsto> File content credUID credUID)"
    and B': "denied wB = denied wA" "stale wB = stale wA"
    using sim_Chown_file[of ?P credUID credUID wA None wB content u g] by (auto simp: sim_fields)
  have C: "\<And>q. q \<noteq> ?K \<Longrightarrow> map_of (files ?wC) q = map_of (files wB) q"
    and C': "denied ?wC = denied wB" "stale ?wC = stale wB"
    using sim_Remove_frame[of ?K wB "fst (sim_Remove ?K wB)" "snd (sim_Remove ?K wB)"]
    by auto
  from sy have sy': "sim_Symlink ?P ?K ?wC = (None, wD)"
    by (simp add: sim_fields cong: if_cong)
  have
    D: "map_of (files wD) = (map_of (files ?wC))(?K \<mapsto> Symlink ?P)"
    and D': "denied wD = denied ?wC" "stale wD = stale ?wC"
    using sim_Symlink_ok[OF sy'] by simp_all
  have "map_of (files wD)
          = ((map_of (files w))(?P \<mapsto> File content credUID credUID))(?K \<mapsto> Symlink ?P)"
  proof
    fix q
    show "map_of (files wD) q
          = (((map_of (files w))(?P \<mapsto> File content credUID credUID))(?K \<mapsto> Symlink ?P)) q"
      using C[of q] by (cases "q = ?K") (simp_all add: D B)
  qed
  then show "\<exists>content uid.
           map_of (files (fst s1))
             = ((map_of (files w))(?P \<mapsto> File content uid uid))
                  (getKerberosFilePath (smb sim)
                     (getKrb5CcacheName (smb sim) (fst (getCredUID mountFlags)))
                     \<mapsto> Symlink ?P)"
    using fin uid by auto
  show "denied (fst s1) = denied w" using fin A' B' C' D' by simp
  show "stale (fst s1) = stale w" using fin A' B' C' D' by simp
  show "sim_Stat (krb5CacheDirectory (smb sim)) w = None" using st by (simp add: sim_fields)
qed


lemma sim_link_test:
  assumes "P \<noteq> []"
  shows "(sim_Lstat q w = None \<and> fst (sim_Readlink q w) = P)
           \<longleftrightarrow> map_of (files w) q = Some (Symlink P)"
  using assms
  by (auto simp: sim_Lstat_def sim_Readlink_def split: option.splits inode.splits)

lemma sim_Remove_link:
  assumes "denied w = []" "map_of (files w) q = Some (Symlink P)"
  shows "sim_Remove q w = (None, w\<lparr>files := AList.delete q (files w)\<rparr>)"
  using assms by (simp add: sim_Remove_def)

lemma removeSymlinks_sim:
  assumes "denied w = []" "P \<noteq> []"
  shows "denied (fst (removeSymlinks sim P names (w, cs))) = []
    \<and> (\<forall>q. map_of (files (fst (removeSymlinks sim P names (w, cs)))) q
          = (if q \<in> getKerberosFilePath (smb sim) ` set names
                \<and> map_of (files w) q = Some (Symlink P)
             then None else map_of (files w) q))"
  using assms(1)
proof (induction names arbitrary: w cs)
  case Nil
  then show ?case by simp
next
  case (Cons name names)
  let ?q = "getKerberosFilePath (smb sim) name"
  show ?case
  proof (cases "map_of (files w) ?q = Some (Symlink P)")
    case True
    let ?w1 = "w\<lparr>files := AList.delete ?q (files w)\<rparr>"
    have step: "removeSymlinks sim P (name # names) (w, cs)
                  = removeSymlinks sim P names (?w1, cs @ [Os_Remove ?q])"
      using True sim_Remove_link[OF Cons.prems True]
      by (simp add: sim_fields effect_def Let_def sim_link_test[OF assms(2)])
    have d1: "denied ?w1 = []" using Cons.prems by simp
    show ?thesis
      unfolding step using Cons.IH[OF d1, of "cs @ [Os_Remove ?q]"] True
      by (auto simp: delete_conv')
  next
    case False
    have step: "removeSymlinks sim P (name # names) (w, cs) = removeSymlinks sim P names (w, cs)"
      using False
      by (simp add: sim_fields Let_def sim_link_test[OF assms(2)])
    show ?thesis
      unfolding step using Cons.IH[OF Cons.prems, of cs] False by auto
  qed
qed

lemma childName_entry:
  assumes "map_of fs (dir @ name) = Some x" "name \<noteq> []" "CHR ''/'' \<notin> set name"
    and "dir \<noteq> []" "last dir = CHR ''/''"
  shows "name \<in> set (List.map_filter (\<lambda>(p, _). childName dir p) fs)"
proof -
  have "(dir @ name, x) \<in> set fs" using assms(1) by (rule map_of_SomeD)
  moreover have "childName dir (dir @ name) = Some name"
    using assms(2-5) by (simp add: childName_def withSlash_def)
  ultimately show ?thesis
    by (force simp: List.map_filter_def)
qed

lemma EncodeToString_nonempty: "v \<noteq> [] \<Longrightarrow> EncodeToString v \<noteq> []"
  by (cases v rule: EncodeToString.cases) (simp_all add: Let_def)

lemma volumeKerberosCacheName_nonempty: "v \<noteq> [] \<Longrightarrow> volumeKerberosCacheName v \<noteq> []"
  by (simp add: volumeKerberosCacheName_def ReplaceAll_single EncodeToString_nonempty Let_def)

lemma two_bytes:
  fixes x y :: nat
  assumes "x < 256" "y < 256"
  shows "x * 256 + y < 65536"
  using assms by linarith

lemma top_byte:
  fixes a r :: nat
  assumes "r < 65536"
  shows "(a * 65536 + r) div 262144 = a div 4"
proof -
  have "(a * 65536 + r) div 262144 = (a * 65536 + r) div 65536 div 4"
    by (simp add: div_mult2_eq[symmetric])
  also have "(a * 65536 + r) div 65536 = a"
    using assms by simp
  finally show ?thesis .
qed

lemma cont_range:
  fixes n :: nat
  assumes "n div 4 mod 64 = 36" "n < 256"
  shows "128 \<le> n \<and> n < 192"
proof -
  have "n div 4 < 64" using assms(2) by simp
  then have q: "n div 4 = 36" using assms(1) by simp
  have "n = 4 * (n div 4) + n mod 4" by simp
  moreover have "n mod 4 < 4" by simp
  ultimately show ?thesis unfolding q by linarith
qed

lemma hd_EncodeToString: "hd (EncodeToString (a # v)) = sextet (of_char a div 4)"
proof (cases "a # v" rule: EncodeToString.cases)
  case (1 a' b' c' src)
  have "(of_char b' :: nat) * 256 + of_char c' < 65536"
    by (rule two_bytes) simp_all
  from top_byte[OF this, of "of_char a'"] 1 show ?thesis
    by (simp add: Let_def add.assoc)
next
  case (2 a' b')
  have "(of_char b' :: nat) * 256 + 0 < 65536"
    by (rule two_bytes) simp_all
  from top_byte[OF this, of "of_char a'"] 2 show ?thesis
    by (simp add: Let_def)
next
  case (3 a')
  from top_byte[of 0 "of_char a'"] 3 show ?thesis
    by (simp add: Let_def)
next
  case 4
  then show ?thesis by simp
qed

lemma sextet_k: "sextet i = CHR ''k'' \<longleftrightarrow> i mod 64 = 36"
proof -
  have "sextet 36 = CHR ''k''" by (simp add: sextet_def encodeStd_def)
  then show ?thesis using sextet_eq_iff[of i 36] by simp
qed

lemma volumeKerberosCacheName_not_krb5cc:
  assumes "utf8Start v"
  shows "volumeKerberosCacheName v \<noteq> CHR ''k'' # x"
proof (cases v)
  case Nil
  then show ?thesis by (simp add: volumeKerberosCacheName_def)
next
  case (Cons a v')
  have ne: "EncodeToString (a # v') \<noteq> []" by (rule EncodeToString_nonempty) simp
  have "hd (volumeKerberosCacheName v)
          = (\<lambda>c. if c = CHR ''+'' then CHR ''_'' else c)
              ((\<lambda>c. if c = CHR ''/'' then CHR ''-'' else c) (sextet (of_char a div 4)))"
    using ne hd_EncodeToString[of a v'] Cons
    by (simp add: volumeKerberosCacheName_def ReplaceAll_single Let_def hd_map)
  moreover have "(of_char a :: nat) div 4 mod 64 \<noteq> 36"
  proof -
    have "\<not> (128 \<le> (of_char a :: nat) \<and> (of_char a :: nat) < 192)"
      using assms Cons by (simp add: utf8Start_def continuationByte_def)
    moreover have lt: "(of_char a :: nat) < 256" by simp
    ultimately show ?thesis using cont_range[OF _ lt] by blast
  qed
  ultimately have "hd (volumeKerberosCacheName v) \<noteq> CHR ''k''"
    using sextet_k[of "of_char a div 4"] by (auto split: if_splits)
  then show ?thesis by auto
qed

lemma sim_Remove_file:
  assumes "denied w = []" "map_of (files w) q = Some (File content uid gid)"
  shows "sim_Remove q w = (None, w\<lparr>files := AList.delete q (files w)\<rparr>)"
  using assms by (simp add: sim_Remove_def)

lemma sim_ReadDir_ok:
  assumes "snd (sim_ReadDir dir w) = None"
  shows "dir \<notin> set (stale w)" and "map_of (files w) dir = Some Dir"
  using assms
  by (auto simp: sim_ReadDir_def split: if_splits option.splits inode.splits)

lemma sim_paths:
  "getKerberosFilePath (smb sim) name = ''/krb5/'' @ name"
  "krb5CacheDirectory (smb sim) = ''/krb5/''"
  "getKrb5CcacheName (smb sim) credUID = CHR ''k'' # ''rb5cc_'' @ Itoa credUID"
  by (simp_all add: getKerberosFilePath_def getKrb5CcacheName_def sim_fields sim_constants_def)

lemma sim_delete_files:
  assumes m1: "map_of (files w1) P = Some (File content uid gid)"
    and dirD: "map_of (files w1) (krb5CacheDirectory (smb sim)) = Some Dir"
    and notstale: "krb5CacheDirectory (smb sim) \<notin> set (stale w1)"
    and d1: "denied w1 = []"
    and P: "P = getKerberosFilePath (smb sim) (volumeKerberosCacheName volumeID)"
    and del: "deleteKerberosCache sim volumeID (w1, cs1) = (r, s2)"
  shows "r = None"
    and "\<forall>q. map_of (files (fst s2)) q
          = (if q = P then None
             else if q \<in> getKerberosFilePath (smb sim)
                       ` set (List.map_filter (\<lambda>(p, _). childName (krb5CacheDirectory (smb sim)) p)
                                (files w1))
                     \<and> map_of (files w1) q = Some (Symlink P)
             then None else map_of (files w1) q)"
proof -
  let ?dir = "krb5CacheDirectory (smb sim)"
  let ?names = "List.map_filter (\<lambda>(p, _). childName ?dir p) (files w1)"
  let ?sL = "removeSymlinks sim P ?names (w1, cs1)"
  have Pne: "P \<noteq> []" unfolding P by (simp add: sim_paths)
  have P': "getKerberosFilePath sim_constants (volumeKerberosCacheName volumeID) = P"
    using P by (simp add: sim_fields)
  have statdir: "sim_Stat ?dir w1 = None"
    using dirD by (simp add: sim_Stat_def resolve_nolink)
  have statP: "sim_Stat P w1 = None"
    using m1 by (simp add: sim_Stat_def resolve_nolink)
  have names: "fst (sim_ReadDir ?dir w1) = ?names"
    using dirD notstale by (simp add: sim_ReadDir_def)
  have L: "denied (fst ?sL) = []"
    and Lm: "\<And>q. map_of (files (fst ?sL)) q
          = (if q \<in> getKerberosFilePath (smb sim) ` set ?names
                \<and> map_of (files w1) q = Some (Symlink P)
             then None else map_of (files w1) q)"
    using removeSymlinks_sim[OF d1 Pne, of ?names cs1] by simp_all
  have PL: "map_of (files (fst ?sL)) P = Some (File content uid gid)"
    using Lm[of P] m1 by simp
  have rem: "sim_Remove P (fst ?sL) = (None, (fst ?sL)\<lparr>files := AList.delete P (files (fst ?sL))\<rparr>)"
    using L PL by (rule sim_Remove_file)
  have "deleteKerberosCache sim volumeID (w1, cs1)
          = (None, ((fst ?sL)\<lparr>files := AList.delete P (files (fst ?sL))\<rparr>,
                    snd ?sL @ [Os_Remove P]))"
    using statdir statP names rem
    by (simp add: deleteKerberosCache_def kerberosCacheDirectoryExists_def sim_fields P'
        effect_def Let_def)
  with del have r: "r = None"
    and s2: "fst s2 = (fst ?sL)\<lparr>files := AList.delete P (files (fst ?sL))\<rparr>"
    by auto
  show "r = None" by (rule r)
  show "\<forall>q. map_of (files (fst s2)) q
          = (if q = P then None
             else if q \<in> getKerberosFilePath (smb sim) ` set ?names
                     \<and> map_of (files w1) q = Some (Symlink P)
             then None else map_of (files w1) q)"
    unfolding s2 using Lm by (simp add: delete_conv')
qed

text \<open>
  C3, amended. On the simulated node: let the volume ID be a non-empty protocol string,
  let its cache path not be a symbolic link beforehand, let the cache directory be
  listable and every removal permitted. When \<open>ensureKerberosCache\<close> has engaged
  Kerberos for the volume and \<open>deleteKerberosCache\<close> for the same volume follows, the
  latter returns nil, the cache file of the volume is gone, no entry of the cache
  directory is a symbolic link to it, and the cache file of every other volume is
  what it was before the two calls.
\<close>

theorem cache_round_trip:
  assumes ne: "volumeID \<noteq> []" and utf: "utf8Start volumeID"
    and ens: "ensureKerberosCache sim volumeID mountFlags secrets (w, cs) = ((True, None), s1)"
    and del: "deleteKerberosCache sim volumeID s1 = (r, s2)"
    and listing: "snd (os_ReadDir sim (krb5CacheDirectory (smb sim)) w) = None"
    and permitted: "denied w = []"
    and nolink: "\<forall>t. map_of (files w)
                     (getKerberosFilePath (smb sim) (volumeKerberosCacheName volumeID))
                   \<noteq> Some (Symlink t)"
  shows "r = None
    \<and> map_of (files (fst s2))
         (getKerberosFilePath (smb sim) (volumeKerberosCacheName volumeID)) = None
    \<and> (\<forall>name. name \<noteq> [] \<and> CHR ''/'' \<notin> set name
          \<longrightarrow> map_of (files (fst s2)) (getKerberosFilePath (smb sim) name)
                \<noteq> Some (Symlink (getKerberosFilePath (smb sim)
                                    (volumeKerberosCacheName volumeID))))
    \<and> (\<forall>v' content uid gid.
          v' \<noteq> volumeID \<and> utf8Start v'
          \<and> map_of (files w) (getKerberosFilePath (smb sim) (volumeKerberosCacheName v'))
              = Some (File content uid gid)
          \<longrightarrow> map_of (files (fst s2)) (getKerberosFilePath (smb sim) (volumeKerberosCacheName v'))
                = Some (File content uid gid))"
proof -
  let ?dir = "krb5CacheDirectory (smb sim)"
  let ?P = "getKerberosFilePath (smb sim) (volumeKerberosCacheName volumeID)"
  let ?K = "getKerberosFilePath (smb sim)
              (getKrb5CcacheName (smb sim) (fst (getCredUID mountFlags)))"
  let ?names = "List.map_filter (\<lambda>(p, _). childName ?dir p) (files (fst s1))"
  from sim_ensure_files[OF ens nolink] obtain content uid where
    m1: "map_of (files (fst s1))
           = ((map_of (files w))(?P \<mapsto> File content uid uid))(?K \<mapsto> Symlink ?P)"
    and d1: "denied (fst s1) = denied w" and st1: "stale (fst s1) = stale w"
    by blast
  have dir0: "?dir \<notin> set (stale w)" "map_of (files w) ?dir = Some Dir"
    using sim_ReadDir_ok[of ?dir w] listing by (simp_all add: sim_fields)
  have PK: "?P \<noteq> ?K"
    using volumeKerberosCacheName_not_krb5cc[OF utf] by (simp add: sim_paths)
  have Pdir: "?P \<noteq> ?dir"
    using volumeKerberosCacheName_nonempty[OF ne] by (simp add: sim_paths)
  have Kdir: "?K \<noteq> ?dir" by (simp add: sim_paths)
  have P1: "map_of (files (fst s1)) ?P = Some (File content uid uid)"
    using PK by (simp add: m1)
  have dir1: "map_of (files (fst s1)) ?dir = Some Dir"
    using Pdir Kdir dir0(2) by (simp add: m1)
  have stale1: "?dir \<notin> set (stale (fst s1))" using dir0(1) st1 by simp
  have den1: "denied (fst s1) = []" using d1 permitted by simp
  have del': "deleteKerberosCache sim volumeID (fst s1, snd s1) = (r, s2)" using del by simp
  have r: "r = None"
    and m2: "\<And>q. map_of (files (fst s2)) q
          = (if q = ?P then None
             else if q \<in> getKerberosFilePath (smb sim) ` set ?names
                     \<and> map_of (files (fst s1)) q = Some (Symlink ?P)
             then None else map_of (files (fst s1)) q)"
    using sim_delete_files[OF P1 dir1 stale1 den1 refl del'] by blast+
  have gone: "map_of (files (fst s2)) ?P = None" using m2[of ?P] by simp
  have nolinks: "map_of (files (fst s2)) (getKerberosFilePath (smb sim) name) \<noteq> Some (Symlink ?P)"
    if name: "name \<noteq> []" "CHR ''/'' \<notin> set name" for name
  proof
    let ?q = "getKerberosFilePath (smb sim) name"
    assume link: "map_of (files (fst s2)) ?q = Some (Symlink ?P)"
    then have q1: "map_of (files (fst s1)) ?q = Some (Symlink ?P)"
      and notin: "?q \<notin> getKerberosFilePath (smb sim) ` set ?names"
      using m2[of ?q] by (auto split: if_splits)
    have "name \<in> set ?names"
      using childName_entry[of "files (fst s1)" "''/krb5/''" name "Symlink ?P"] q1 name
      by (simp add: sim_paths)
    with notin show False by blast
  qed
  have others: "map_of (files (fst s2)) (getKerberosFilePath (smb sim) (volumeKerberosCacheName v'))
                = Some (File c u g)"
    if v': "v' \<noteq> volumeID" "utf8Start v'"
      "map_of (files w) (getKerberosFilePath (smb sim) (volumeKerberosCacheName v'))
         = Some (File c u g)"
    for v' c u g
  proof -
    let ?P' = "getKerberosFilePath (smb sim) (volumeKerberosCacheName v')"
    have "?P' \<noteq> ?P"
      using volumeKerberosCacheName_inj[of v' volumeID] v'(1) by (auto simp: sim_paths)
    moreover have "?P' \<noteq> ?K"
      using volumeKerberosCacheName_not_krb5cc[OF v'(2)] by (simp add: sim_paths)
    ultimately show ?thesis
      using m2[of ?P'] v'(3) by (simp add: m1)
  qed
  show ?thesis using r gone nolinks others by blast
qed

lemma krb_pieces:
  "DecodeString ''aGVsbG8='' = Inr ''hello''"
  "Atoi ''1000'' = (1000, None)"
  "Itoa 1000 = ''1000''"
  "volumeKerberosCacheName ''v1'' = ''djE=''"
  "volumeKerberosCacheName ''v2'' = ''djI=''"
  by (simp_all add: DecodeString_def decodeMap_def byte_def encodeStd_def Atoi_def digitVal_def
      Itoa_def utoa.simps digit_def volumeKerberosCacheName_def sextet_def HasPrefix_def)

lemmas krb_eval = server_defs string_defs sim_fields sim_ops sim_examples krb_pieces

text \<open>
  C3, as the claim states it, fails in two ways. On a node where the canonical cache
  file cannot be removed, \<open>deleteKerberosCache\<close> logs the failure and goes on: after
  the round trip for volume \<open>v1\<close> the directory still holds \<open>krb5cc_1000\<close>, a symbolic
  link to the cache file of \<open>v1\<close>. And on a node where the cache path of \<open>v1\<close> is a
  symbolic link to the cache file of \<open>v2\<close>, \<open>ensureKerberosCache\<close> for \<open>v1\<close> writes its
  ticket into the cache file of \<open>v2\<close> and changes its owner.
\<close>

theorem cache_round_trip_counterexample:
  "getKerberosFilePath (smb sim) (volumeKerberosCacheName ''v1'') = ''/krb5/djE=''
   \<and> ensureKerberosCache sim ''v1'' krb_flags krb_secrets (node_denied, [])
     = ((True, None),
        (node_denied\<lparr>files := [(''/krb5/'', Dir), (''/krb5/djE='', File ''hello'' 1000 1000),
                                (''/krb5/krb5cc_1000'', Symlink ''/krb5/djE='')]\<rparr>,
         [Os_WriteFile ''/krb5/djE='' ''hello'' 448, Os_Chown ''/krb5/djE='' 1000 1000,
          Os_Symlink ''/krb5/djE='' ''/krb5/krb5cc_1000'']))
   \<and> deleteKerberosCache sim ''v1''
        (node_denied\<lparr>files := [(''/krb5/'', Dir), (''/krb5/djE='', File ''hello'' 1000 1000),
                                (''/krb5/krb5cc_1000'', Symlink ''/krb5/djE='')]\<rparr>,
         [Os_WriteFile ''/krb5/djE='' ''hello'' 448, Os_Chown ''/krb5/djE='' 1000 1000,
          Os_Symlink ''/krb5/djE='' ''/krb5/krb5cc_1000''])
     = (None,
        (node_denied\<lparr>files := [(''/krb5/'', Dir),
                                (''/krb5/krb5cc_1000'', Symlink ''/krb5/djE='')]\<rparr>,
         [Os_WriteFile ''/krb5/djE='' ''hello'' 448, Os_Chown ''/krb5/djE='' 1000 1000,
          Os_Symlink ''/krb5/djE='' ''/krb5/krb5cc_1000'', Os_Remove ''/krb5/krb5cc_1000'',
          Os_Remove ''/krb5/djE='']))
   \<and> getKerberosFilePath (smb sim) (volumeKerberosCacheName ''v2'') = ''/krb5/djI=''
   \<and> map_of (files node_linked) ''/krb5/djI='' = Some (File ''ticket of v2'' 7 7)
   \<and> ensureKerberosCache sim ''v1'' krb_flags krb_secrets (node_linked, [])
     = ((True, None),
        (node_linked\<lparr>files := [(''/krb5/'', Dir), (''/krb5/djI='', File ''hello'' 1000 1000),
                                (''/krb5/djE='', Symlink ''/krb5/djI=''),
                                (''/krb5/krb5cc_1000'', Symlink ''/krb5/djE='')]\<rparr>,
         [Os_WriteFile ''/krb5/djE='' ''hello'' 448, Os_Chown ''/krb5/djE='' 1000 1000,
          Os_Symlink ''/krb5/djE='' ''/krb5/krb5cc_1000'']))"
  by (simp add: krb_eval)

text \<open>
  The round trip for volume \<open>v1\<close> on a node that holds the cache file of volume \<open>v2\<close>:
  afterwards the node is as before.
\<close>

theorem cache_round_trip_witness:
  "''v1'' \<noteq> [] \<and> utf8Start ''v1''
   \<and> ensureKerberosCache sim ''v1'' krb_flags krb_secrets (node_v2, [])
     = ((True, None),
        (node_v2\<lparr>files := [(''/krb5/'', Dir), (''/krb5/djI='', File ''ticket of v2'' 7 7),
                            (''/krb5/djE='', File ''hello'' 1000 1000),
                            (''/krb5/krb5cc_1000'', Symlink ''/krb5/djE='')]\<rparr>,
         [Os_WriteFile ''/krb5/djE='' ''hello'' 448, Os_Chown ''/krb5/djE='' 1000 1000,
          Os_Symlink ''/krb5/djE='' ''/krb5/krb5cc_1000'']))
   \<and> deleteKerberosCache sim ''v1''
        (node_v2\<lparr>files := [(''/krb5/'', Dir), (''/krb5/djI='', File ''ticket of v2'' 7 7),
                            (''/krb5/djE='', File ''hello'' 1000 1000),
                            (''/krb5/krb5cc_1000'', Symlink ''/krb5/djE='')]\<rparr>,
         [Os_WriteFile ''/krb5/djE='' ''hello'' 448, Os_Chown ''/krb5/djE='' 1000 1000,
          Os_Symlink ''/krb5/djE='' ''/krb5/krb5cc_1000''])
     = (None,
        (node_v2,
         [Os_WriteFile ''/krb5/djE='' ''hello'' 448, Os_Chown ''/krb5/djE='' 1000 1000,
          Os_Symlink ''/krb5/djE='' ''/krb5/krb5cc_1000'', Os_Remove ''/krb5/krb5cc_1000'',
          Os_Remove ''/krb5/djE='']))
   \<and> snd (os_ReadDir sim (krb5CacheDirectory (smb sim)) node_v2) = None
   \<and> denied node_v2 = []
   \<and> map_of (files node_v2) (getKerberosFilePath (smb sim) (volumeKerberosCacheName ''v1'')) = None
   \<and> map_of (files node_v2) (getKerberosFilePath (smb sim) ''krb5cc_1000'') = None
   \<and> map_of (files node_v2) (getKerberosFilePath (smb sim) (volumeKerberosCacheName ''v2''))
       = Some (File ''ticket of v2'' 7 7)"
proof -
  let ?s1 = "(node_v2\<lparr>files := [(''/krb5/'', Dir), (''/krb5/djI='', File ''ticket of v2'' 7 7),
                            (''/krb5/djE='', File ''hello'' 1000 1000),
                            (''/krb5/krb5cc_1000'', Symlink ''/krb5/djE='')]\<rparr>,
         [Os_WriteFile ''/krb5/djE='' ''hello'' 448, Os_Chown ''/krb5/djE='' 1000 1000,
          Os_Symlink ''/krb5/djE='' ''/krb5/krb5cc_1000''])"
  let ?s2 = "(node_v2,
         [Os_WriteFile ''/krb5/djE='' ''hello'' 448, Os_Chown ''/krb5/djE='' 1000 1000,
          Os_Symlink ''/krb5/djE='' ''/krb5/krb5cc_1000'', Os_Remove ''/krb5/krb5cc_1000'',
          Os_Remove ''/krb5/djE=''])"
  have ne: "''v1'' \<noteq> []" by simp
  have utf: "utf8Start ''v1''" by (simp add: utf8Start_def continuationByte_def)
  have ens: "ensureKerberosCache sim ''v1'' krb_flags krb_secrets (node_v2, []) = ((True, None), ?s1)"
    by (simp add: krb_eval)
  have del: "deleteKerberosCache sim ''v1'' ?s1 = (None, ?s2)"
    by (simp add: krb_eval)
  have listing: "snd (os_ReadDir sim (krb5CacheDirectory (smb sim)) node_v2) = None"
    by (simp add: krb_eval)
  have permitted: "denied node_v2 = []" by (simp add: sim_examples)
  have nolink: "\<forall>t. map_of (files node_v2)
                     (getKerberosFilePath (smb sim) (volumeKerberosCacheName ''v1''))
                   \<noteq> Some (Symlink t)"
    by (simp add: krb_eval)
  have v2: "''v2'' \<noteq> ''v1'' \<and> utf8Start ''v2''
      \<and> map_of (files node_v2) (getKerberosFilePath (smb sim) (volumeKerberosCacheName ''v2''))
          = Some (File ''ticket of v2'' 7 7)"
    by (simp add: krb_eval utf8Start_def continuationByte_def)
  have k: "''krb5cc_1000'' \<noteq> [] \<and> CHR ''/'' \<notin> set ''krb5cc_1000''" by simp
  note rt = cache_round_trip[OF ne utf ens del listing permitted nolink]
  have "map_of (files (fst ?s2)) (getKerberosFilePath (smb sim) (volumeKerberosCacheName ''v1''))
          = None"
    by (rule rt[THEN conjunct2, THEN conjunct1])
  moreover
  have "map_of (files (fst ?s2)) (getKerberosFilePath (smb sim) (volumeKerberosCacheName ''v2''))
       = Some (File ''ticket of v2'' 7 7)"
    by (rule rt[THEN conjunct2, THEN conjunct2, THEN conjunct2, rule_format, OF v2])
  moreover have "map_of (files node_v2) (getKerberosFilePath (smb sim) ''krb5cc_1000'') = None"
    by (simp add: krb_eval)
  ultimately show ?thesis
    using ne utf ens del listing permitted by simp
qed

end
